theory Spec2Isabelle
  imports Main "HOL-Library.Sublist" "HOL-Library.AList"
begin

section \<open>JSON values as the server sees them\<close>

text \<open>
  The server (an Express application) never declares a type for the data it handles:
  the completion provider's text is turned into a value by \<open>JSON.parse\<close>, the catalog
  provider's replies are the values axios decoded, and every check of the handlers is a
  JavaScript truthiness test or property read on such a value. The model therefore keeps
  the values dynamic.

  A number is kept as its decimal rendering (what \<open>String\<close> and \<open>JSON.stringify\<close>
  print for it, \<open>0\<close> for both zeros): the handlers only test a number for truthiness,
  compare it with \<open>0\<close> and print it, and the rendering decides all three. Strings are
  sequences of code units below 256. \<open>undefined\<close> is \<open>None\<close> of \<open>json option\<close>.
\<close>

datatype json =
    JNull
  | JBool bool
  | JNum string
  | JStr string
  | JArr "json list"
  | JObj "(string \<times> json) list"

text \<open>
  What a \<open>throw\<close> carries as far as the handlers look at it: \<open>error.response?.status\<close>
  (present only on a rejection by axios that has a response) and \<open>error.message\<close>.
\<close>

datatype js_error = Thrown (response_status: "nat option") (message: string)

fun truthy :: "json option \<Rightarrow> bool" where
  "truthy None = False"
| "truthy (Some JNull) = False"
| "truthy (Some (JBool b)) = b"
| "truthy (Some (JNum r)) = (r \<noteq> ''0'')"
| "truthy (Some (JStr s)) = (s \<noteq> [])"
| "truthy (Some (JArr xs)) = True"
| "truthy (Some (JObj kvs)) = True"

fun show_nat :: "nat \<Rightarrow> string" where
  "show_nat n =
     (if n < 10 then [char_of (48 + n)]
      else show_nat (n div 10) @ [char_of (48 + n mod 10)])"

declare show_nat.simps [simp del]

text \<open>
  The own enumerable properties of a value, in the sense of the object spread
  \<open>{...v}\<close>: the members of an object, the indexed elements of an array, the indexed
  code units of a string, nothing for a number or a boolean.
\<close>

fun own_props :: "json \<Rightarrow> (string \<times> json) list" where
  "own_props (JObj kvs) = kvs"
| "own_props (JArr xs) = zip (map show_nat [0..<length xs]) xs"
| "own_props (JStr s) = zip (map show_nat [0..<length s]) (map (\<lambda>c. JStr [c]) s)"
| "own_props v = []"

text \<open>
  A property read \<open>v[k]\<close> on a value that is neither \<open>null\<close> nor \<open>undefined\<close>, for the
  property names this server reads (none of them is a method of a prototype): an own
  property, or the \<open>length\<close> of an array or a string.
\<close>

fun get_prop :: "json \<Rightarrow> string \<Rightarrow> json option" where
  "get_prop (JArr xs) k =
     (if k = ''length'' then Some (JNum (show_nat (length xs)))
      else map_of (own_props (JArr xs)) k)"
| "get_prop (JStr s) k =
     (if k = ''length'' then Some (JNum (show_nat (length s)))
      else map_of (own_props (JStr s)) k)"
| "get_prop v k = map_of (own_props v) k"

text \<open>\<open>v.k\<close>: a TypeError on \<open>null\<close> and \<open>undefined\<close>.\<close>

definition null_name :: "json option \<Rightarrow> string" where
  "null_name v = (case v of None \<Rightarrow> ''undefined'' | Some _ \<Rightarrow> ''null'')"

definition read_member :: "json option \<Rightarrow> string \<Rightarrow> js_error + json option" where
  "read_member v k =
     (case v of
        Some JNull \<Rightarrow>
          Inl (Thrown None (''Cannot read properties of '' @ null_name v @ '' (reading '' @ [CHR 0x27] @ k @ [CHR 0x27] @ '')''))
      | None \<Rightarrow>
          Inl (Thrown None (''Cannot read properties of '' @ null_name v @ '' (reading '' @ [CHR 0x27] @ k @ [CHR 0x27] @ '')''))
      | Some x \<Rightarrow> Inr (get_prop x k))"

text \<open>\<open>v?.k\<close>: \<open>undefined\<close> on \<open>null\<close> and \<open>undefined\<close>.\<close>

definition opt_member :: "json option \<Rightarrow> string \<Rightarrow> json option" where
  "opt_member v k = (case v of None \<Rightarrow> None | Some JNull \<Rightarrow> None | Some x \<Rightarrow> get_prop x k)"

text \<open>
  \<open>String(v)\<close>, as template literals, \<open>Array.prototype.join\<close> and \<open>JSON.parse\<close> apply it.
  An object prints as \<open>[object Object]\<close>, unless it has an own member \<open>toString\<close>: a value
  made by \<open>JSON.parse\<close> is never callable, so the conversion finds no usable method and
  throws. \<open>join\<close> prints \<open>null\<close> elements as the empty string.
\<close>

definition no_primitive :: js_error where
  "no_primitive = Thrown None ''Cannot convert object to primitive value''"

fun to_string :: "json \<Rightarrow> js_error + string"
  and join :: "string \<Rightarrow> json list \<Rightarrow> js_error + string"
where
  "to_string JNull = Inr ''null''"
| "to_string (JBool b) = Inr (if b then ''true'' else ''false'')"
| "to_string (JNum r) = Inr r"
| "to_string (JStr s) = Inr s"
| "to_string (JArr xs) = join '','' xs"
| "to_string (JObj kvs) =
     (if ''toString'' \<in> fst ` set kvs then Inl no_primitive else Inr ''[object Object]'')"
| "join sep [] = Inr []"
| "join sep (x # xs) =
     (case (if x = JNull then Inr [] else to_string x) of
        Inl e \<Rightarrow> Inl e
      | Inr s \<Rightarrow>
          (if xs = [] then Inr s
           else (case join sep xs of Inl e \<Rightarrow> Inl e | Inr t \<Rightarrow> Inr (s @ sep @ t))))"

text \<open>
  The primitives of the JavaScript runtime that the handlers call and that are not
  part of this repository: \<open>JSON.parse\<close> (\<open>None\<close> when it throws a SyntaxError) and the
  numeric reading of a string in a comparison, \<open>Number(s) > 0\<close>.
\<close>

record runtime =
  JSON_parse :: "string \<Rightarrow> json option"
  string_gt_zero :: "string \<Rightarrow> bool"

text \<open>\<open>v > 0\<close>. \<open>undefined\<close> and an unprintable object compare as \<open>NaN\<close>.\<close>

fun gt_zero :: "runtime \<Rightarrow> json option \<Rightarrow> js_error + bool" where
  "gt_zero rt None = Inr False"
| "gt_zero rt (Some JNull) = Inr False"
| "gt_zero rt (Some (JBool b)) = Inr b"
| "gt_zero rt (Some (JNum r)) = Inr (r \<noteq> ''0'' \<and> \<not> prefix ''-'' r)"
| "gt_zero rt (Some (JStr s)) = Inr (string_gt_zero rt s)"
| "gt_zero rt (Some (JArr xs)) =
     (case join '','' xs of Inl e \<Rightarrow> Inl e | Inr s \<Rightarrow> Inr (string_gt_zero rt s))"
| "gt_zero rt (Some (JObj kvs)) =
     (if ''toString'' \<in> fst ` set kvs then Inl no_primitive else Inr False)"

text \<open>\<open>s.includes(t)\<close>.\<close>

fun str_includes :: "string \<Rightarrow> string \<Rightarrow> bool" where
  "str_includes [] t = (t = [])"
| "str_includes (c # cs) t = (prefix t (c # cs) \<or> str_includes cs t)"

text \<open>
  Storing a value under a member name of an object literal. A member whose value is
  \<open>undefined\<close> is left out by \<open>JSON.stringify\<close>, so storing \<open>undefined\<close> removes the
  member from what the client receives.
\<close>

definition put :: "string \<Rightarrow> json option \<Rightarrow> (string \<times> json) list \<Rightarrow> (string \<times> json) list" where
  "put k v kvs = (case v of None \<Rightarrow> AList.delete k kvs | Some x \<Rightarrow> AList.update k x kvs)"

text \<open>
  The assignment \<open>e.k = v\<close>, as far as the serialised \<open>e\<close> shows it: an object gets the
  member; on any other value the assignment leaves the serialisation as it was.
\<close>

definition assign :: "json \<Rightarrow> string \<Rightarrow> json \<Rightarrow> json" where
  "assign e k v = (case e of JObj kvs \<Rightarrow> JObj (AList.update k v kvs) | _ \<Rightarrow> e)"

section \<open>Requests, responses and the outside world\<close>

text \<open>
  A query parameter as Express hands it over: absent, a string, or a value that is not
  a string (an array or an object of the query-string parser, always truthy), kept as
  what \<open>String\<close> makes of it.
\<close>

datatype qparam = Absent | QStr string | QOther string

record request =
  q_mood :: qparam
  q_ingredients :: qparam
  q_longMode :: qparam

record response =
  status :: nat
  body :: json

text \<open>
  The three outbound calls of the server: the client-credentials exchange at the
  catalog's token endpoint (its arguments are process configuration), a catalog search,
  and a chat completion.
\<close>

datatype call =
    TokenCall
  | SearchCall (authorization: string) (query: string) (limit: nat)
  | CompletionCall (system_content: string) (user_content: string) (max_tokens: nat)

text \<open>
  axios resolves with the decoded \<open>response.data\<close> on a 2xx answer and rejects on
  everything else: with \<open>error.response.status\<close> when the provider answered, without a
  response on a timeout or a network failure. The world answers a call knowing the
  calls made before it in the same request.
\<close>

datatype reply = Resolved json | Rejected "nat option" string

type_synonym world = "call list \<Rightarrow> call \<Rightarrow> reply"

definition axios :: "world \<Rightarrow> call list \<Rightarrow> call \<Rightarrow> (js_error + json) \<times> call list" where
  "axios w log c =
     (case w log c of
        Resolved d \<Rightarrow> (Inr d, log @ [c])
      | Rejected st msg \<Rightarrow> (Inl (Thrown st msg), log @ [c]))"

section \<open>getSpotifyToken\<close>

text \<open>
  The process exits at start-up when a credential is missing, so the check of the
  credentials inside \<open>getSpotifyToken\<close> always passes and the function is the
  token request followed by the test of \<open>response.data.access_token\<close>. Every
  failure inside it is caught and thrown again as a plain \<open>Error\<close>, which has no
  \<open>response\<close>.
\<close>

definition token_failure :: "string \<Rightarrow> js_error" where
  "token_failure msg = Thrown None (''Failed to get Spotify token: '' @ msg)"

definition getSpotifyToken :: "world \<Rightarrow> call list \<Rightarrow> (js_error + json) \<times> call list" where
  "getSpotifyToken w log =
     (case axios w log TokenCall of
        (Inl e, log') \<Rightarrow> (Inl (token_failure (message e)), log')
      | (Inr d, log') \<Rightarrow>
          (if truthy (Some d) \<and> truthy (get_prop d ''access_token'')
           then (case get_prop d ''access_token'' of
                   Some t \<Rightarrow> (Inr t, log')
                 | None \<Rightarrow> (Inl (token_failure ''Invalid response from Spotify API: No access token received''), log'))
           else (Inl (token_failure ''Invalid response from Spotify API: No access token received''), log')))"

section \<open>The /api/experience handler\<close>

subsection \<open>Input validation\<close>

definition mood_required :: response where
  "mood_required =
     \<lparr>status = 400,
      body = JObj [(''error'', JStr ''Mood is required and must be a string''),
                   (''details'', JStr ''Please provide a valid mood parameter'')]\<rparr>"

definition invalid_ingredients :: response where
  "invalid_ingredients =
     \<lparr>status = 400,
      body = JObj [(''error'', JStr ''Invalid ingredients format''),
                   (''details'', JStr ''Ingredients must be a valid JSON array'')]\<rparr>"

text \<open>\<open>!mood || typeof mood !== 'string'\<close>\<close>

definition valid_mood :: "qparam \<Rightarrow> string option" where
  "valid_mood p = (case p of QStr m \<Rightarrow> (if m = [] then None else Some m) | _ \<Rightarrow> None)"

definition parse_array :: "runtime \<Rightarrow> string \<Rightarrow> response + json list" where
  "parse_array rt s =
     (case JSON_parse rt s of
        Some (JArr xs) \<Rightarrow> Inr xs
      | _ \<Rightarrow> Inl invalid_ingredients)"

text \<open>
  \<open>if (req.query.ingredients)\<close>: an absent and an empty parameter are both falsy and
  leave the list empty; anything else goes through \<open>JSON.parse\<close> and \<open>Array.isArray\<close>.
\<close>

definition parse_ingredients :: "runtime \<Rightarrow> qparam \<Rightarrow> response + json list" where
  "parse_ingredients rt p =
     (case p of
        Absent \<Rightarrow> Inr []
      | QStr s \<Rightarrow> (if s = [] then Inr [] else parse_array rt s)
      | QOther s \<Rightarrow> parse_array rt s)"

definition long_mode :: "qparam \<Rightarrow> bool" where
  "long_mode p = (p = QStr ''true'')"

subsection \<open>The completion request\<close>

definition systemPromptSchema :: string where
  \<open>systemPromptSchema =
   ''You are a creative experience generator that strictly follows instructions.\<newline>'' @
   ''            Generate a complete vibe card based on the user's mood and available ingredients.\<newline>'' @
   ''            You MUST return ONLY a JSON object with the following structure and no other text:\<newline>'' @
   ''            {\<newline>'' @
   ''              "playlist": {\<newline>'' @
   ''                "name": "string",\<newline>'' @
   ''                "description": "string",\<newline>'' @
   ''                "genre": "string",\<newline>'' @
   ''                "theme": "string",\<newline>'' @
   ''                "url": "string"\<newline>'' @
   ''              },\<newline>'' @
   ''              "recipe": {\<newline>'' @
   ''                "title": "string",\<newline>'' @
   ''                "ingredients": ["string"],\<newline>'' @
   ''                "instructions": "string"\<newline>'' @
   ''              },\<newline>'' @
   ''              "movie": {\<newline>'' @
   ''                "title": "string",\<newline>'' @
   ''                "year": "number",\<newline>'' @
   ''                "description": "string",\<newline>'' @
   ''                "genre": "string",\<newline>'' @
   ''                "streaming": "string"\<newline>'' @
   ''              },\<newline>'' @
   ''              "colorPalette": {\<newline>'' @
   ''                "name": "string",\<newline>'' @
   ''                "colors": [\<newline>'' @
   ''                  {\<newline>'' @
   ''                    "name": "string",\<newline>'' @
   ''                    "hex": "string"\<newline>'' @
   ''                  }\<newline>'' @
   ''                ]\<newline>'' @
   ''              },\<newline>'' @
   ''              "meditation": {\<newline>'' @
   ''                "prompt": "string",\<newline>'' @
   ''                "duration": "string"\<newline>'' @
   ''              },\<newline>'' @
   ''              "outfit": {\<newline>'' @
   ''                "description": "string",\<newline>'' @
   ''                "season": "string",\<newline>'' @
   ''                "style": "string",\<newline>'' @
   ''                "colors": ["string"]\<newline>'' @
   ''              },\<newline>'' @
   ''              "writing": {\<newline>'' @
   ''                "snippet": "string",\<newline>'' @
   ''                "theme": "string"\<newline>'' @
   ''              }\<newline>'' @
   ''            }\<newline>'' @
   ''            \<newline>'' @
   ''            ''\<close>

definition longModeInstructions :: string where
  \<open>longModeInstructions =
   ''For the recipe, generate a complete creative recipe, with a fun name, a detailed list of at least 7 ingredients, and 7+ well-written cooking steps. Include serving suggestions and optional toppings.\<newline>'' @
   ''              For the movie, recommend a movie matching the mood with a detailed 3-4 sentence synopsis, the genre, streaming platform, and a deep explanation of why this movie fits the mood emotionally.\<newline>'' @
   ''              For the meditation, write a 7-10 sentence mini meditation script, with vivid calming imagery and specific breathing cues appropriate for the mood and duration.\<newline>'' @
   ''              For the color palette, include a detailed mood-based description of the color scheme and when/where someone might feel inspired by it, mentioning the emotional impact of the colors.\<newline>'' @
   ''              For the outfit, give a full outfit suggestion with 2-3 sentences on why it fits the mood and occasion, including specific clothing items, textures, and accessories.\<newline>'' @
   ''              For the writing snippet, provide a 6-8 sentence micro-poem or story excerpt that deeply emotionally resonates with the mood and strongly matches the tone (motivational, romantic, nostalgic, etc.), focusing on evocative language.''\<close>

definition shortModeInstructions :: string where
  \<open>shortModeInstructions =
   ''Keep descriptions concise, under 3 sentences for movie, meditation, outfit, and writing snippet. For the recipe, provide a brief summary and a short list of key ingredients and steps.''\<close>

definition system_prompt :: "bool \<Rightarrow> string" where
  "system_prompt lm =
     systemPromptSchema @ (if lm then longModeInstructions else shortModeInstructions)"

definition token_budget :: "bool \<Rightarrow> nat" where
  "token_budget lm = (if lm then 3000 else 2000)"

definition user_prompt :: "string \<Rightarrow> json list \<Rightarrow> js_error + string" where
  \<open>user_prompt m ings =
     (if ings \<noteq> []
      then (case join '', '' ings of
              Inl e \<Rightarrow> Inl e
            | Inr s \<Rightarrow> Inr (''Generate a vibe card for mood: "'' @ m @ ''"'' @ '' with ingredients: '' @ s))
      else Inr (''Generate a vibe card for mood: "'' @ m @ ''"''))\<close>

definition groq_content :: "json \<Rightarrow> json option" where
  "groq_content d =
     opt_member (opt_member (opt_member (opt_member (Some d) ''choices'') ''0'') ''message'') ''content''"

definition generateContent ::
  "world \<Rightarrow> call list \<Rightarrow> string \<Rightarrow> json list \<Rightarrow> bool \<Rightarrow> (js_error + json) \<times> call list" where
  "generateContent w log m ings lm =
     (case user_prompt m ings of
        Inl e \<Rightarrow> (Inl e, log)
      | Inr u \<Rightarrow>
          (case axios w log (CompletionCall (system_prompt lm) u (token_budget lm)) of
             (Inl e, log') \<Rightarrow> (Inl e, log')
           | (Inr d, log') \<Rightarrow>
               (case groq_content d of
                  None \<Rightarrow> (Inl (Thrown None ''Invalid response from Groq API''), log')
                | Some c \<Rightarrow>
                    (if truthy (Some c) then (Inr c, log')
                     else (Inl (Thrown None ''Invalid response from Groq API''), log')))))"

subsection \<open>Parsing and the seven sections\<close>

definition parse_failure :: js_error where
  "parse_failure = Thrown None ''Failed to parse AI response''"

definition parseContent :: "runtime \<Rightarrow> json \<Rightarrow> js_error + json" where
  "parseContent rt c =
     (case to_string c of
        Inl e \<Rightarrow> Inl parse_failure
      | Inr s \<Rightarrow> (case JSON_parse rt s of None \<Rightarrow> Inl parse_failure | Some e \<Rightarrow> Inr e))"

definition requiredSections :: "string list" where
  "requiredSections =
     [''playlist'', ''recipe'', ''movie'', ''colorPalette'', ''meditation'', ''outfit'', ''writing'']"

definition missing_section :: "string \<Rightarrow> js_error" where
  "missing_section s = Thrown None (''Missing required section: '' @ s)"

fun check_sections :: "json \<Rightarrow> string list \<Rightarrow> js_error + unit" where
  "check_sections e [] = Inr ()"
| "check_sections e (s # ss) =
     (case read_member (Some e) s of
        Inl err \<Rightarrow> Inl err
      | Inr v \<Rightarrow> (if truthy v then check_sections e ss else Inl (missing_section s)))"

subsection \<open>Playlist enrichment\<close>

definition first_item :: "json \<Rightarrow> json option" where
  "first_item d = opt_member (opt_member (opt_member (Some d) ''playlists'') ''items'') ''0''"

text \<open>
  The object literal \<open>{...experience.playlist, name, description, url, images}\<close>. Reading
  \<open>playlist.external_urls.spotify\<close> throws when the item has no \<open>external_urls\<close>.
\<close>

definition merged_playlist :: "json \<Rightarrow> json \<Rightarrow> js_error + json" where
  "merged_playlist e item =
     (case read_member (get_prop item ''external_urls'') ''spotify'' of
        Inl err \<Rightarrow> Inl err
      | Inr url \<Rightarrow>
          Inr (JObj (put ''images'' (get_prop item ''images'')
                    (put ''url'' url
                    (put ''description'' (get_prop item ''description'')
                    (put ''name'' (get_prop item ''name'')
                    (case get_prop e ''playlist'' of None \<Rightarrow> [] | Some p \<Rightarrow> own_props p)))))))"

text \<open>
  The whole step runs inside one \<open>try\<close> whose \<open>catch\<close> only logs: whatever is thrown,
  the experience stays as the model generated it.
\<close>

definition enrichPlaylist :: "world \<Rightarrow> call list \<Rightarrow> string \<Rightarrow> json \<Rightarrow> json \<times> call list" where
  "enrichPlaylist w log m e =
     (case getSpotifyToken w log of
        (Inl err, log1) \<Rightarrow> (e, log1)
      | (Inr token, log1) \<Rightarrow>
          (case to_string token of
             Inl err \<Rightarrow> (e, log1)
           | Inr t \<Rightarrow>
               (case axios w log1 (SearchCall (''Bearer '' @ t) (m @ '' playlist'') 1) of
                  (Inl err, log2) \<Rightarrow> (e, log2)
                | (Inr d, log2) \<Rightarrow>
                    (case first_item d of
                       None \<Rightarrow> (e, log2)
                     | Some item \<Rightarrow>
                         (if truthy (Some item)
                          then (case merged_playlist e item of
                                  Inl err \<Rightarrow> (e, log2)
                                | Inr p \<Rightarrow> (assign e ''playlist'' p, log2))
                          else (e, log2))))))"

subsection \<open>Error mapping and the handler\<close>

definition fetch_failed :: "string \<Rightarrow> response" where
  "fetch_failed msg =
     \<lparr>status = 500,
      body = JObj [(''error'', JStr ''Failed to fetch experience. Please try again later.''),
                   (''details'', JStr msg)]\<rparr>"

definition experience_error :: "js_error \<Rightarrow> response" where
  "experience_error err =
     (if response_status err = Some 401
      then \<lparr>status = 401,
            body = JObj [(''error'', JStr ''Unauthorized - Please check your API credentials'')]\<rparr>
      else if response_status err = Some 429
      then \<lparr>status = 429,
            body = JObj [(''error'', JStr ''Rate limit exceeded - Please try again later'')]\<rparr>
      else if str_includes (message err) ''Groq''
      then \<lparr>status = 500,
            body = JObj [(''error'', JStr ''Failed to generate experience. Please try again later.'')]\<rparr>
      else fetch_failed (message err))"

definition assemble ::
  "runtime \<Rightarrow> world \<Rightarrow> string \<Rightarrow> json list \<Rightarrow> bool \<Rightarrow> (js_error + json) \<times> call list" where
  "assemble rt w m ings lm =
     (case generateContent w [] m ings lm of
        (Inl err, log) \<Rightarrow> (Inl err, log)
      | (Inr c, log) \<Rightarrow>
          (case parseContent rt c of
             Inl err \<Rightarrow> (Inl err, log)
           | Inr e \<Rightarrow>
               (case check_sections e requiredSections of
                  Inl err \<Rightarrow> (Inl err, log)
                | Inr u \<Rightarrow>
                    (case enrichPlaylist w log m e of (e', log') \<Rightarrow> (Inr e', log')))))"

definition experience_handler :: "runtime \<Rightarrow> world \<Rightarrow> request \<Rightarrow> response \<times> call list" where
  "experience_handler rt w req =
     (case valid_mood (q_mood req) of
        None \<Rightarrow> (mood_required, [])
      | Some m \<Rightarrow>
          (case parse_ingredients rt (q_ingredients req) of
             Inl r \<Rightarrow> (r, [])
           | Inr ings \<Rightarrow>
               (case assemble rt w m ings (long_mode (q_longMode req)) of
                  (Inl err, log) \<Rightarrow> (experience_error err, log)
                | (Inr e, log) \<Rightarrow> (\<lparr>status = 200, body = e\<rparr>, log))))"

section \<open>The /api/playlist handler\<close>

subsection \<open>Normalising the mood\<close>

text \<open>
  \<open>mood.toLowerCase().replace(/[^a-z\s]/g, '').replace(/\s+/g, ' ').trim()\<close> on code
  units below 256, where the white space of \<open>\s\<close> and of \<open>trim\<close> is the tab, the line
  feed, the vertical tab, the form feed, the carriage return, the space and the
  no-break space.
\<close>

definition js_space :: "char \<Rightarrow> bool" where
  "js_space c = (of_char c \<in> {9, 10, 11, 12, 13, 32, 160 :: nat})"

definition lower_char :: "char \<Rightarrow> char" where
  "lower_char c =
     (let n = (of_char c :: nat)
      in if (65 \<le> n \<and> n \<le> 90) \<or> (192 \<le> n \<and> n \<le> 222 \<and> n \<noteq> 215)
         then char_of (n + 32) else c)"

definition toLowerCase :: "string \<Rightarrow> string" where
  "toLowerCase s = map lower_char s"

definition is_az :: "char \<Rightarrow> bool" where
  "is_az c = (97 \<le> (of_char c :: nat) \<and> (of_char c :: nat) \<le> 122)"

definition strip_special :: "string \<Rightarrow> string" where
  "strip_special s = filter (\<lambda>c. is_az c \<or> js_space c) s"

text \<open>The flag says that the previous code unit was white space already replaced.\<close>

fun collapse_spaces :: "bool \<Rightarrow> string \<Rightarrow> string" where
  "collapse_spaces prev [] = []"
| "collapse_spaces prev (c # cs) =
     (if js_space c
      then (if prev then collapse_spaces True cs else CHR '' '' # collapse_spaces True cs)
      else c # collapse_spaces False cs)"

definition trim :: "string \<Rightarrow> string" where
  "trim s = rev (dropWhile js_space (rev (dropWhile js_space s)))"

definition formattedMood :: "string \<Rightarrow> string" where
  "formattedMood m = trim (collapse_spaces False (strip_special (toLowerCase m)))"

definition searchQueries :: "string \<Rightarrow> string list" where
  "searchQueries fm =
     [fm @ '' playlist'',
      fm @ '' vibe playlist'',
      fm @ '' '' @ fm @ '' playlist'',
      fm @ '' feel playlist'']"

subsection \<open>The fallback search\<close>

definition result_items :: "json \<Rightarrow> json option" where
  "result_items d = opt_member (opt_member (Some d) ''playlists'') ''items''"

text \<open>
  One pass of the \<open>for\<close> loop per query. The body is a \<open>try\<close> whose \<open>catch\<close> only logs,
  so a query that throws is followed by the next one; the loop is left at the first
  answer whose \<open>items?.length > 0\<close>, with \<open>items[0]\<close> as the playlist.
\<close>

fun search_loop ::
  "runtime \<Rightarrow> world \<Rightarrow> json \<Rightarrow> call list \<Rightarrow> string list \<Rightarrow> json option \<times> call list" where
  "search_loop rt w token log [] = (None, log)"
| "search_loop rt w token log (q # qs) =
     (case to_string token of
        Inl err \<Rightarrow> search_loop rt w token log qs
      | Inr t \<Rightarrow>
          (case axios w log (SearchCall (''Bearer '' @ t) q 5) of
             (Inl err, log') \<Rightarrow> search_loop rt w token log' qs
           | (Inr d, log') \<Rightarrow>
               (case gt_zero rt (opt_member (result_items d) ''length'') of
                  Inl err \<Rightarrow> search_loop rt w token log' qs
                | Inr hit \<Rightarrow>
                    (if hit then (opt_member (result_items d) ''0'', log')
                     else search_loop rt w token log' qs))))"

text \<open>
  The loop's exit test on one answer: the request resolved and
  \<open>data?.playlists?.items?.length > 0\<close> holds.
\<close>

definition nonempty_result :: "runtime \<Rightarrow> reply \<Rightarrow> bool" where
  "nonempty_result rt r =
     (case r of
        Rejected st msg \<Rightarrow> False
      | Resolved d \<Rightarrow> gt_zero rt (opt_member (result_items d) ''length'') = Inr True)"

subsection \<open>Responses and the handler\<close>

definition mood_missing :: response where
  "mood_missing = \<lparr>status = 400, body = JObj [(''error'', JStr ''Mood is required'')]\<rparr>"

definition no_playlists :: response where
  "no_playlists =
     \<lparr>status = 404,
      body = JObj [(''error'', JStr ''No playlists found. Try a different mood or check back later.'')]\<rparr>"

definition playlist_error :: "js_error \<Rightarrow> response" where
  "playlist_error err =
     (if response_status err = Some 401
      then \<lparr>status = 401,
            body = JObj [(''error'', JStr ''Unauthorized - Please check your API credentials'')]\<rparr>
      else \<lparr>status = 500,
            body = JObj [(''error'', JStr ''Failed to fetch playlist. Please try again later.'')]\<rparr>)"

definition playlistData :: "json \<Rightarrow> json" where
  "playlistData playlist =
     JObj (put ''owner'' (get_prop playlist ''owner'')
          (put ''images'' (get_prop playlist ''images'')
          (put ''external_urls'' (get_prop playlist ''external_urls'')
          (put ''description'' (get_prop playlist ''description'')
          (put ''name'' (get_prop playlist ''name'')
          (put ''id'' (get_prop playlist ''id'') []))))))"

text \<open>
  The handler returns from its first \<open>try\<close> block after the search. Nothing in that
  block throws (it reads properties of a truthy value and serialises them), so its
  \<open>catch\<close> has no counterpart here; neither have the statements that follow the
  block in the source (a validation of \<open>selectedPlaylist\<close>, a completion request
  for a mood description and a second \<open>res.json\<close>), which are never executed.
\<close>

definition playlist_handler :: "runtime \<Rightarrow> world \<Rightarrow> request \<Rightarrow> response \<times> call list" where
  "playlist_handler rt w req =
     (case q_mood req of
        Absent \<Rightarrow> (mood_missing, [])
      | QStr m \<Rightarrow>
          (if m = [] then (mood_missing, [])
           else (case getSpotifyToken w [] of
                   (Inl err, log) \<Rightarrow> (playlist_error err, log)
                 | (Inr token, log) \<Rightarrow>
                     (case search_loop rt w token log (searchQueries (formattedMood m)) of
                        (None, log') \<Rightarrow> (no_playlists, log')
                      | (Some playlist, log') \<Rightarrow>
                          (if truthy (Some playlist)
                           then (\<lparr>status = 200,
                                  body = JObj [(''playlist'', playlistData playlist)]\<rparr>, log')
                           else (no_playlists, log')))))
      | QOther s \<Rightarrow>
          (case getSpotifyToken w [] of
             (Inl err, log) \<Rightarrow> (playlist_error err, log)
           | (Inr token, log) \<Rightarrow>
               (playlist_error (Thrown None ''mood.toLowerCase is not a function''), log)))"

section \<open>Sample runtime and sample providers\<close>

text \<open>
  The examples below run the handlers on concrete requests. \<open>sample_parse\<close> agrees with
  \<open>JSON.parse\<close> on every text the examples hand to it. No example compares a string
  with \<open>0\<close>, so \<open>sample_gt_zero\<close> is never consulted.
\<close>

definition sample_experience_text :: string where
  \<open>sample_experience_text =
     ''{"playlist":{"name":"Calm Mix","description":"soft","genre":"ambient","theme":"rest","url":"https://gen.example/p"},'' @
     ''"recipe":{"title":"Tea"},"movie":{"title":"Her"},"colorPalette":{"name":"Dusk"},'' @
     ''"meditation":{"prompt":"Breathe"},"outfit":{"style":"cozy"},"writing":{"snippet":"Still water"}}''\<close>

definition sample_playlist :: json where
  "sample_playlist =
     JObj [(''name'', JStr ''Calm Mix''), (''description'', JStr ''soft''),
           (''genre'', JStr ''ambient''), (''theme'', JStr ''rest''),
           (''url'', JStr ''https://gen.example/p'')]"

definition sample_experience :: json where
  "sample_experience =
     JObj [(''playlist'', sample_playlist),
           (''recipe'', JObj [(''title'', JStr ''Tea'')]),
           (''movie'', JObj [(''title'', JStr ''Her'')]),
           (''colorPalette'', JObj [(''name'', JStr ''Dusk'')]),
           (''meditation'', JObj [(''prompt'', JStr ''Breathe'')]),
           (''outfit'', JObj [(''style'', JStr ''cozy'')]),
           (''writing'', JObj [(''snippet'', JStr ''Still water'')])]"

definition falsy_section_text :: string where
  \<open>falsy_section_text =
     ''{"playlist":{"name":"Calm Mix"},"recipe":{"title":"Tea"},"movie":{"title":"Her"},'' @
     ''"colorPalette":{"name":"Dusk"},"meditation":false,"outfit":{"style":"cozy"},'' @
     ''"writing":{"snippet":"Still water"}}''\<close>

definition falsy_section_members :: "(string \<times> json) list" where
  "falsy_section_members =
     [(''playlist'', JObj [(''name'', JStr ''Calm Mix'')]),
      (''recipe'', JObj [(''title'', JStr ''Tea'')]),
      (''movie'', JObj [(''title'', JStr ''Her'')]),
      (''colorPalette'', JObj [(''name'', JStr ''Dusk'')]),
      (''meditation'', JBool False),
      (''outfit'', JObj [(''style'', JStr ''cozy'')]),
      (''writing'', JObj [(''snippet'', JStr ''Still water'')])]"

definition sample_parse :: "string \<Rightarrow> json option" where
  \<open>sample_parse s =
     (if s = sample_experience_text then Some sample_experience
      else if s = falsy_section_text then Some (JObj falsy_section_members)
      else if s = ''["egg","rice"]'' then Some (JArr [JStr ''egg'', JStr ''rice''])
      else if s = ''{"recipe":{"title":"Tea"}}'' then Some (JObj [(''recipe'', JObj [(''title'', JStr ''Tea'')])])
      else if s = ''{}'' then Some (JObj [])
      else if s = ''42'' then Some (JNum ''42'')
      else if s = ''null'' then Some JNull
      else None)\<close>

definition sample_gt_zero :: "string \<Rightarrow> bool" where
  "sample_gt_zero s = (s = ''1'')"

definition sample_rt :: runtime where
  "sample_rt = \<lparr>JSON_parse = sample_parse, string_gt_zero = sample_gt_zero\<rparr>"

text \<open>A completion provider's answer whose first choice carries the given text.\<close>

definition completion_data :: "string \<Rightarrow> json" where
  "completion_data text =
     JObj [(''choices'',
       JArr [JObj [(''message'', JObj [(''role'', JStr ''assistant''), (''content'', JStr text)])]])]"

definition completion_reply :: "string \<Rightarrow> reply" where
  "completion_reply text = Resolved (completion_data text)"

definition token_data :: json where
  "token_data = JObj [(''access_token'', JStr ''tok''), (''token_type'', JStr ''Bearer'')]"

definition token_reply :: reply where
  "token_reply = Resolved token_data"

definition sample_match :: json where
  "sample_match =
     JObj [(''id'', JStr ''p1''), (''name'', JStr ''Deep Calm''),
           (''description'', JNull),
           (''external_urls'', JObj [(''spotify'', JStr ''https://open.example/p1'')]),
           (''images'', JArr [JObj [(''url'', JStr ''https://img.example/1'')]]),
           (''owner'', JObj [(''id'', JStr ''u1'')])]"

definition search_data :: "json list \<Rightarrow> json" where
  "search_data items = JObj [(''playlists'', JObj [(''items'', JArr items)])]"

definition search_reply :: "json list \<Rightarrow> reply" where
  "search_reply items = Resolved (search_data items)"

text \<open>
  A world built from one answer per provider; the catalog's answer may depend on the
  query.
\<close>

definition providers :: "reply \<Rightarrow> reply \<Rightarrow> (string \<Rightarrow> reply) \<Rightarrow> world" where
  "providers completion token search log c =
     (case c of
        TokenCall \<Rightarrow> token
      | SearchCall a q n \<Rightarrow> search q
      | CompletionCall s u n \<Rightarrow> completion)"

definition unreachable :: reply where
  "unreachable = Rejected None ''Network Error''"

definition rejected :: "nat \<Rightarrow> reply" where
  "rejected st = Rejected (Some st) (''Request failed with status code '' @ show_nat st)"

definition always :: "reply \<Rightarrow> string \<Rightarrow> reply" where
  "always r q = r"

definition only_for :: "string \<Rightarrow> reply \<Rightarrow> string \<Rightarrow> reply" where
  "only_for q0 r q = (if q = q0 then r else search_reply [])"

text \<open>
  A catalog that fails on the plain query for the mood \<open>sad\<close>, finds nothing for
  the second query and has one playlist for the third.
\<close>

definition flaky_catalog :: "string \<Rightarrow> reply" where
  "flaky_catalog q =
     (if q = ''sad playlist'' then rejected 503
      else if q = ''sad sad playlist'' then search_reply [sample_match]
      else search_reply [])"

definition offline :: world where
  "offline = providers unreachable unreachable (always unreachable)"

section \<open>Which calls a request makes\<close>

lemma axios_log: "axios w log c = (r, l) \<Longrightarrow> l = log @ [c]"
  by (auto simp: axios_def split: reply.splits)

lemma getSpotifyToken_log: "getSpotifyToken w log = (r, l) \<Longrightarrow> l = log @ [TokenCall]"
  by (auto simp: getSpotifyToken_def split: prod.splits sum.splits option.splits if_splits dest!: axios_log)

lemma enrichPlaylist_log: "enrichPlaylist w log m e = (e', l) \<Longrightarrow> \<exists>ext. l = log @ ext"
  by (auto simp: enrichPlaylist_def split: prod.splits sum.splits option.splits if_splits dest!: axios_log getSpotifyToken_log)

lemma generateContent_log:
  "user_prompt m ings = Inr u \<Longrightarrow>
   snd (generateContent w log m ings lm) = log @ [CompletionCall (system_prompt lm) u (token_budget lm)]"
  by (auto simp: generateContent_def split: prod.splits sum.splits option.splits dest!: axios_log)

lemma generateContent_no_call:
  "user_prompt m ings = Inl e \<Longrightarrow> generateContent w log m ings lm = (Inl e, log)"
  by (simp add: generateContent_def)

lemma assemble_first_call:
  assumes "user_prompt m ings = Inr u"
  shows "\<exists>ext. snd (assemble rt w m ings lm) = CompletionCall (system_prompt lm) u (token_budget lm) # ext"
proof -
  obtain r l where g: "generateContent w [] m ings lm = (r, l)" by fastforce
  have l: "l = [CompletionCall (system_prompt lm) u (token_budget lm)]"
    using generateContent_log [OF assms, of w "[]" lm] g by simp
  show ?thesis
    using g l
    by (auto simp: assemble_def split: prod.splits sum.splits dest!: enrichPlaylist_log)
qed

lemma experience_error_status: "status (experience_error err) \<in> {401, 429, 500}"
  by (simp add: experience_error_def fetch_failed_def)

lemma experience_status_400:
  "status (fst (experience_handler rt w req)) = 400 \<longleftrightarrow>
     valid_mood (q_mood req) = None \<or> (\<exists>r. parse_ingredients rt (q_ingredients req) = Inl r)"
proof -
  have pi: "parse_ingredients rt p = Inl r \<Longrightarrow> r = invalid_ingredients" for p r
    by (auto simp: parse_ingredients_def parse_array_def split: qparam.splits if_splits option.splits json.splits)
  have ne: "status (experience_error err) \<noteq> 400" for err
    using experience_error_status [of err] by auto
  show ?thesis
    by (auto simp: experience_handler_def mood_required_def invalid_ingredients_def ne
        split: option.splits sum.splits prod.splits dest!: pi)
qed

lemma experience_first_call:
  assumes "q_mood req = QStr m" "m \<noteq> []"
    and "parse_ingredients rt (q_ingredients req) = Inr ings"
    and "user_prompt m ings = Inr u"
  shows "take 1 (snd (experience_handler rt w req)) =
           [CompletionCall (system_prompt (long_mode (q_longMode req))) u
              (token_budget (long_mode (q_longMode req)))]"
proof -
  obtain ext where "snd (assemble rt w m ings (long_mode (q_longMode req))) =
      CompletionCall (system_prompt (long_mode (q_longMode req))) u
        (token_budget (long_mode (q_longMode req))) # ext"
    using assemble_first_call [OF assms(4)] by blast
  then show ?thesis
    using assms(1-3)
    by (auto simp: experience_handler_def valid_mood_def split: prod.splits sum.splits)
qed

section \<open>Input validation of /api/experience\<close>

text \<open>
  Claim C3, as the code has it. A request to /api/experience whose mood parameter is
  absent, the empty string or not a string is answered with status 400 and the
  mood-specific message, and no outbound call is made. A mood that is not empty is
  accepted whatever its characters are, white space included: with the ingredients
  absent the response is not a 400 and the first outbound call is the completion
  request carrying that mood.
\<close>

theorem empty_mood_rejected:
  "(q_mood req = Absent \<or> q_mood req = QStr [] \<or> q_mood req = QOther s \<longrightarrow>
      experience_handler rt w req = (mood_required, []) \<and> status mood_required = 400)
   \<and> (q_mood req' = QStr m \<and> m \<noteq> [] \<and> q_ingredients req' = Absent \<longrightarrow>
      status (fst (experience_handler rt w req')) \<noteq> 400 \<and>
      take 1 (snd (experience_handler rt w req')) =
        [CompletionCall (system_prompt (long_mode (q_longMode req')))
           (''Generate a vibe card for mood: '' @ [CHR 0x22] @ m @ [CHR 0x22])
           (token_budget (long_mode (q_longMode req')))])"
proof (intro conjI impI)
  assume "q_mood req = Absent \<or> q_mood req = QStr [] \<or> q_mood req = QOther s"
  then show "experience_handler rt w req = (mood_required, [])"
    by (auto simp: experience_handler_def valid_mood_def)
next
  show "status mood_required = 400" by (simp add: mood_required_def)
next
  assume a: "q_mood req' = QStr m \<and> m \<noteq> [] \<and> q_ingredients req' = Absent"
  then show "status (fst (experience_handler rt w req')) \<noteq> 400"
    by (simp add: experience_status_400 valid_mood_def parse_ingredients_def)
next
  assume a: "q_mood req' = QStr m \<and> m \<noteq> [] \<and> q_ingredients req' = Absent"
  have "user_prompt m [] = Inr (''Generate a vibe card for mood: '' @ [CHR 0x22] @ m @ [CHR 0x22])"
    by (simp add: user_prompt_def)
  moreover have "parse_ingredients rt (q_ingredients req') = Inr []"
    using a by (simp add: parse_ingredients_def)
  ultimately show "take 1 (snd (experience_handler rt w req')) =
        [CompletionCall (system_prompt (long_mode (q_longMode req')))
           (''Generate a vibe card for mood: '' @ [CHR 0x22] @ m @ [CHR 0x22])
           (token_budget (long_mode (q_longMode req')))]"
    using a experience_first_call [of req' m rt "[]"] by simp
qed

theorem empty_mood_rejected_witness:
  "experience_handler sample_rt offline \<lparr>q_mood = QStr [], q_ingredients = Absent, q_longMode = Absent\<rparr>
     = (mood_required, []) \<and>
   status (fst (experience_handler sample_rt offline
      \<lparr>q_mood = QStr ''   '', q_ingredients = Absent, q_longMode = Absent\<rparr>)) \<noteq> 400 \<and>
   take 1 (snd (experience_handler sample_rt offline
      \<lparr>q_mood = QStr ''   '', q_ingredients = Absent, q_longMode = Absent\<rparr>)) =
     [CompletionCall (system_prompt False) (''Generate a vibe card for mood: '' @ [CHR 0x22] @ ''   '' @ [CHR 0x22]) 2000]"
  using empty_mood_rejected [of "\<lparr>q_mood = QStr [], q_ingredients = Absent, q_longMode = Absent\<rparr>" undefined
      sample_rt offline "\<lparr>q_mood = QStr ''   '', q_ingredients = Absent, q_longMode = Absent\<rparr>" "''   ''"]
  by (simp add: long_mode_def token_budget_def)

text \<open>
  The mood of one space is not rejected: with every provider unreachable the handler
  still issues the completion request and answers 500.
\<close>

theorem whitespace_mood_counterexample:
  "status (fst (experience_handler sample_rt offline
      \<lparr>q_mood = QStr '' '', q_ingredients = Absent, q_longMode = Absent\<rparr>)) = 500 \<and>
   snd (experience_handler sample_rt offline
      \<lparr>q_mood = QStr '' '', q_ingredients = Absent, q_longMode = Absent\<rparr>) =
     [CompletionCall (system_prompt False) (''Generate a vibe card for mood: '' @ [CHR 0x22] @ '' '' @ [CHR 0x22]) 2000]"
  by (simp add: experience_handler_def valid_mood_def parse_ingredients_def assemble_def
      generateContent_def user_prompt_def axios_def offline_def providers_def unreachable_def
      experience_error_def fetch_failed_def long_mode_def token_budget_def)

text \<open>
  Claim C10. For a request that passes validation, the completion request uses the
  long-mode instructions and the budget of 3000 tokens exactly when the longMode
  parameter is the string \<open>true\<close>, and the short-mode instructions with 2000 tokens
  for every other value, an absent parameter included. The response is not a 400, and
  for any request at all, changing the longMode parameter never changes whether the
  response is a 400.
\<close>

theorem longMode_exact_true:
  assumes "q_mood req = QStr m" "m \<noteq> []"
    and "parse_ingredients rt (q_ingredients req) = Inr ings"
    and "user_prompt m ings = Inr u"
  shows "take 1 (snd (experience_handler rt w req)) =
           [CompletionCall
              (systemPromptSchema @
                 (if q_longMode req = QStr ''true'' then longModeInstructions else shortModeInstructions))
              u (if q_longMode req = QStr ''true'' then 3000 else 2000)]
         \<and> status (fst (experience_handler rt w req)) \<noteq> 400
         \<and> (status (fst (experience_handler rt w (req\<lparr>q_longMode := p\<rparr>))) = 400
              \<longleftrightarrow> status (fst (experience_handler rt w req)) = 400)"
  using experience_first_call [OF assms, of w] assms(1-3)
  by (simp add: experience_status_400 system_prompt_def token_budget_def long_mode_def valid_mood_def)

theorem longMode_exact_true_witness:
  "take 1 (snd (experience_handler sample_rt offline
      \<lparr>q_mood = QStr ''calm'', q_ingredients = Absent, q_longMode = QStr ''True''\<rparr>)) =
     [CompletionCall (systemPromptSchema @ shortModeInstructions)
        (''Generate a vibe card for mood: '' @ [CHR 0x22] @ ''calm'' @ [CHR 0x22]) 2000]
   \<and> status (fst (experience_handler sample_rt offline
      \<lparr>q_mood = QStr ''calm'', q_ingredients = Absent, q_longMode = QStr ''True''\<rparr>)) \<noteq> 400"
  using longMode_exact_true [of "\<lparr>q_mood = QStr ''calm'', q_ingredients = Absent, q_longMode = QStr ''True''\<rparr>"
      "''calm''" sample_rt "[]" "''Generate a vibe card for mood: '' @ [CHR 0x22] @ ''calm'' @ [CHR 0x22]" offline]
  by (simp add: parse_ingredients_def user_prompt_def)

text \<open>
  Claim C7, as the code has it. With a valid mood, an ingredients parameter that is
  not empty and that \<open>JSON.parse\<close> rejects or reads as anything but an array (such as
  \<open>abc\<close> or \<open>{}\<close>) is answered with status 400 and the ingredients-specific message,
  and no outbound call is made. An absent parameter and an empty one are both skipped
  by \<open>if (req.query.ingredients)\<close>: the request goes on with an empty ingredient list
  and the completion request mentions no ingredients.
\<close>

theorem invalid_ingredients_rejected:
  "(q_mood req = QStr m \<and> m \<noteq> [] \<and>
     (q_ingredients req = QStr s \<and> s \<noteq> [] \<or> q_ingredients req = QOther s) \<and>
     (\<forall>xs. JSON_parse rt s \<noteq> Some (JArr xs)) \<longrightarrow>
       experience_handler rt w req = (invalid_ingredients, []) \<and>
       status invalid_ingredients = 400 \<and>
       get_prop (body invalid_ingredients) ''error'' = Some (JStr ''Invalid ingredients format''))
   \<and> (q_mood req' = QStr m' \<and> m' \<noteq> [] \<and>
       (q_ingredients req' = Absent \<or> q_ingredients req' = QStr []) \<longrightarrow>
       status (fst (experience_handler rt w req')) \<noteq> 400 \<and>
       take 1 (snd (experience_handler rt w req')) =
         [CompletionCall (system_prompt (long_mode (q_longMode req')))
            (''Generate a vibe card for mood: '' @ [CHR 0x22] @ m' @ [CHR 0x22])
            (token_budget (long_mode (q_longMode req')))])"
proof (intro conjI impI)
  assume a: "q_mood req = QStr m \<and> m \<noteq> [] \<and>
     (q_ingredients req = QStr s \<and> s \<noteq> [] \<or> q_ingredients req = QOther s) \<and>
     (\<forall>xs. JSON_parse rt s \<noteq> Some (JArr xs))"
  then have "parse_array rt s = Inl invalid_ingredients"
    by (auto simp: parse_array_def split: option.splits json.splits)
  with a have "parse_ingredients rt (q_ingredients req) = Inl invalid_ingredients"
    by (auto simp: parse_ingredients_def)
  with a show "experience_handler rt w req = (invalid_ingredients, [])"
    by (simp add: experience_handler_def valid_mood_def)
next
  show "status invalid_ingredients = 400" by (simp add: invalid_ingredients_def)
next
  show "get_prop (body invalid_ingredients) ''error'' = Some (JStr ''Invalid ingredients format'')"
    by (simp add: invalid_ingredients_def)
next
  assume a: "q_mood req' = QStr m' \<and> m' \<noteq> [] \<and>
       (q_ingredients req' = Absent \<or> q_ingredients req' = QStr [])"
  then show "status (fst (experience_handler rt w req')) \<noteq> 400"
    by (auto simp: experience_status_400 valid_mood_def parse_ingredients_def)
next
  assume a: "q_mood req' = QStr m' \<and> m' \<noteq> [] \<and>
       (q_ingredients req' = Absent \<or> q_ingredients req' = QStr [])"
  have "user_prompt m' [] = Inr (''Generate a vibe card for mood: '' @ [CHR 0x22] @ m' @ [CHR 0x22])"
    by (simp add: user_prompt_def)
  moreover have "parse_ingredients rt (q_ingredients req') = Inr []"
    using a by (auto simp: parse_ingredients_def)
  ultimately show "take 1 (snd (experience_handler rt w req')) =
         [CompletionCall (system_prompt (long_mode (q_longMode req')))
            (''Generate a vibe card for mood: '' @ [CHR 0x22] @ m' @ [CHR 0x22])
            (token_budget (long_mode (q_longMode req')))]"
    using a experience_first_call [of req' m' rt "[]"] by simp
qed

theorem invalid_ingredients_rejected_witness:
  "experience_handler sample_rt offline
      \<lparr>q_mood = QStr ''calm'', q_ingredients = QStr ''{}'', q_longMode = Absent\<rparr>
     = (invalid_ingredients, [])
   \<and> experience_handler sample_rt offline
      \<lparr>q_mood = QStr ''calm'', q_ingredients = QStr ''abc'', q_longMode = Absent\<rparr>
     = (invalid_ingredients, [])
   \<and> status (fst (experience_handler sample_rt offline
      \<lparr>q_mood = QStr ''calm'', q_ingredients = Absent, q_longMode = Absent\<rparr>)) \<noteq> 400"
proof -
  have p: "\<forall>xs. JSON_parse sample_rt ''{}'' \<noteq> Some (JArr xs)"
       "\<forall>xs. JSON_parse sample_rt ''abc'' \<noteq> Some (JArr xs)"
    by (simp_all add: sample_rt_def sample_parse_def sample_experience_text_def falsy_section_text_def)
  show ?thesis
    using p
      invalid_ingredients_rejected [of "\<lparr>q_mood = QStr ''calm'', q_ingredients = QStr ''{}'', q_longMode = Absent\<rparr>"
        "''calm''" "''{}''" sample_rt offline
        "\<lparr>q_mood = QStr ''calm'', q_ingredients = Absent, q_longMode = Absent\<rparr>" "''calm''"]
      invalid_ingredients_rejected [of "\<lparr>q_mood = QStr ''calm'', q_ingredients = QStr ''abc'', q_longMode = Absent\<rparr>"
        "''calm''" "''abc''" sample_rt offline
        "\<lparr>q_mood = QStr ''calm'', q_ingredients = Absent, q_longMode = Absent\<rparr>" "''calm''"]
    by simp
qed

text \<open>
  The empty ingredients parameter is present and is no JSON array, yet the request is
  not rejected: the completion provider is called.
\<close>

theorem empty_ingredients_counterexample:
  "JSON_parse sample_rt [] = None \<and>
   status (fst (experience_handler sample_rt offline
      \<lparr>q_mood = QStr ''calm'', q_ingredients = QStr [], q_longMode = Absent\<rparr>)) = 500 \<and>
   snd (experience_handler sample_rt offline
      \<lparr>q_mood = QStr ''calm'', q_ingredients = QStr [], q_longMode = Absent\<rparr>) =
     [CompletionCall (system_prompt False) (''Generate a vibe card for mood: '' @ [CHR 0x22] @ ''calm'' @ [CHR 0x22]) 2000]"
  by (simp add: experience_handler_def valid_mood_def parse_ingredients_def assemble_def
      generateContent_def user_prompt_def axios_def offline_def providers_def unreachable_def
      experience_error_def fetch_failed_def long_mode_def token_budget_def sample_rt_def sample_parse_def
      sample_experience_text_def falsy_section_text_def)

section \<open>Long mode and short mode\<close>

lemma prompts_differ: "system_prompt True \<noteq> system_prompt False"
  by (simp add: system_prompt_def longModeInstructions_def shortModeInstructions_def)

text \<open>
  Claim C9. For a fixed mood and ingredient list, the request in long mode and a
  request in short mode both open with a completion request for the same user prompt;
  the long one allows 3000 tokens and the short one 2000, and their system prompts
  differ.
\<close>

theorem modes_differ_in_budget_and_instructions:
  assumes "q_mood req = QStr m" "m \<noteq> []"
    and "parse_ingredients rt (q_ingredients req) = Inr ings"
    and "user_prompt m ings = Inr u"
    and "p \<noteq> QStr ''true''"
  shows "take 1 (snd (experience_handler rt w (req\<lparr>q_longMode := QStr ''true''\<rparr>))) =
           [CompletionCall (systemPromptSchema @ longModeInstructions) u 3000]
       \<and> take 1 (snd (experience_handler rt w' (req\<lparr>q_longMode := p\<rparr>))) =
           [CompletionCall (systemPromptSchema @ shortModeInstructions) u 2000]
       \<and> systemPromptSchema @ longModeInstructions \<noteq> systemPromptSchema @ shortModeInstructions
       \<and> (2000 :: nat) < 3000"
proof -
  have l: "take 1 (snd (experience_handler rt w (req\<lparr>q_longMode := QStr ''true''\<rparr>))) =
           [CompletionCall (systemPromptSchema @ longModeInstructions) u 3000]"
    using experience_first_call [of "req\<lparr>q_longMode := QStr ''true''\<rparr>" m rt ings u w] assms
    by (simp add: long_mode_def system_prompt_def token_budget_def)
  have s: "take 1 (snd (experience_handler rt w' (req\<lparr>q_longMode := p\<rparr>))) =
           [CompletionCall (systemPromptSchema @ shortModeInstructions) u 2000]"
    using experience_first_call [of "req\<lparr>q_longMode := p\<rparr>" m rt ings u w'] assms
    by (simp add: long_mode_def system_prompt_def token_budget_def)
  show ?thesis
    using l s prompts_differ by (simp add: system_prompt_def)
qed

theorem modes_differ_witness:
  "take 1 (snd (experience_handler sample_rt offline
      \<lparr>q_mood = QStr ''calm'', q_ingredients = QStr (''['' @ [CHR 0x22] @ ''egg'' @ [CHR 0x22] @ '','' @ [CHR 0x22] @ ''rice'' @ [CHR 0x22] @ '']''), q_longMode = QStr ''true''\<rparr>)) =
     [CompletionCall (systemPromptSchema @ longModeInstructions)
        (''Generate a vibe card for mood: '' @ [CHR 0x22] @ ''calm'' @ [CHR 0x22] @ '' with ingredients: egg, rice'') 3000]
   \<and> take 1 (snd (experience_handler sample_rt offline
      \<lparr>q_mood = QStr ''calm'', q_ingredients = QStr (''['' @ [CHR 0x22] @ ''egg'' @ [CHR 0x22] @ '','' @ [CHR 0x22] @ ''rice'' @ [CHR 0x22] @ '']''), q_longMode = QStr ''false''\<rparr>)) =
     [CompletionCall (systemPromptSchema @ shortModeInstructions)
        (''Generate a vibe card for mood: '' @ [CHR 0x22] @ ''calm'' @ [CHR 0x22] @ '' with ingredients: egg, rice'') 2000]"
  using modes_differ_in_budget_and_instructions
    [of "\<lparr>q_mood = QStr ''calm'', q_ingredients = QStr (''['' @ [CHR 0x22] @ ''egg'' @ [CHR 0x22] @ '','' @ [CHR 0x22] @ ''rice'' @ [CHR 0x22] @ '']''), q_longMode = Absent\<rparr>"
        "''calm''" sample_rt "[JStr ''egg'', JStr ''rice'']"
        "''Generate a vibe card for mood: '' @ [CHR 0x22] @ ''calm'' @ [CHR 0x22] @ '' with ingredients: egg, rice''"
        "QStr ''false''" offline offline]
  by (simp add: parse_ingredients_def parse_array_def sample_rt_def sample_parse_def user_prompt_def
      sample_experience_text_def falsy_section_text_def)

section \<open>The stages of /api/experience\<close>

lemma experience_after_validation:
  assumes "q_mood req = QStr m" "m \<noteq> []"
    and "parse_ingredients rt (q_ingredients req) = Inr ings"
  shows "experience_handler rt w req =
     (case assemble rt w m ings (long_mode (q_longMode req)) of
        (Inl err, log) \<Rightarrow> (experience_error err, log)
      | (Inr e, log) \<Rightarrow> (\<lparr>status = 200, body = e\<rparr>, log))"
  using assms by (simp add: experience_handler_def valid_mood_def)

lemma generateContent_resolved:
  assumes "user_prompt m ings = Inr u"
    and "w log (CompletionCall (system_prompt lm) u (token_budget lm)) = Resolved d"
  shows "generateContent w log m ings lm =
     (if truthy (groq_content d)
      then (case groq_content d of Some c \<Rightarrow> Inr c | None \<Rightarrow> Inl (Thrown None ''Invalid response from Groq API''))
      else Inl (Thrown None ''Invalid response from Groq API''),
      log @ [CompletionCall (system_prompt lm) u (token_budget lm)])"
  using assms by (auto simp: generateContent_def axios_def split: option.splits)

lemma generateContent_rejected:
  assumes "user_prompt m ings = Inr u"
    and "w log (CompletionCall (system_prompt lm) u (token_budget lm)) = Rejected st msg"
  shows "generateContent w log m ings lm =
     (Inl (Thrown st msg), log @ [CompletionCall (system_prompt lm) u (token_budget lm)])"
  using assms by (simp add: generateContent_def axios_def)

lemma read_member_value: "e \<noteq> JNull \<Longrightarrow> read_member (Some e) k = Inr (get_prop e k)"
  by (cases e) (simp_all add: read_member_def)

lemma check_sections_find:
  "e \<noteq> JNull \<Longrightarrow>
   check_sections e ss =
     (case find (\<lambda>k. \<not> truthy (get_prop e k)) ss of
        None \<Rightarrow> Inr ()
      | Some k \<Rightarrow> Inl (missing_section k))"
  by (induction ss) (simp_all add: read_member_value)

lemma check_sections_null:
  "check_sections JNull requiredSections =
     Inl (Thrown None (''Cannot read properties of null (reading '' @ [CHR 0x27] @ ''playlist'' @ [CHR 0x27] @ '')''))"
  by (simp add: requiredSections_def read_member_def null_name_def)

lemma check_sections_ok:
  assumes "check_sections e requiredSections = Inr ()"
  shows "e \<noteq> JNull" and "\<forall>k\<in>set requiredSections. truthy (get_prop e k)"
proof -
  show ne: "e \<noteq> JNull" using assms check_sections_null by auto
  have "find (\<lambda>k. \<not> truthy (get_prop e k)) requiredSections = None"
    using assms check_sections_find [OF ne, of requiredSections]
    by (simp split: option.splits)
  then show "\<forall>k\<in>set requiredSections. truthy (get_prop e k)"
    by (simp add: find_None_iff)
qed

lemma missing_section_response:
  assumes "k \<in> set requiredSections"
  shows "experience_error (missing_section k) = fetch_failed (''Missing required section: '' @ k)"
  using assms
  by (auto simp: requiredSections_def experience_error_def missing_section_def)

lemma parse_failure_response:
  "experience_error parse_failure = fetch_failed ''Failed to parse AI response''"
  by (simp add: experience_error_def parse_failure_def)

lemma truthy_assign:
  "truthy (get_prop e k') \<Longrightarrow> truthy (get_prop (assign e k (JObj x)) k')"
  by (cases e) (auto simp: assign_def update_conv')

lemma enrichPlaylist_cases:
  "enrichPlaylist w log m e = (e', l) \<Longrightarrow>
     e' = e \<or> (\<exists>item p. merged_playlist e item = Inr p \<and> e' = assign e ''playlist'' p)"
  by (auto simp: enrichPlaylist_def split: prod.splits sum.splits option.splits if_splits)

lemma merged_playlist_obj: "merged_playlist e item = Inr p \<Longrightarrow> \<exists>x. p = JObj x"
  by (auto simp: merged_playlist_def split: sum.splits)

lemma enrichPlaylist_sections:
  assumes "enrichPlaylist w log m e = (e', l)" and "truthy (get_prop e k)"
  shows "truthy (get_prop e' k)"
  using enrichPlaylist_cases [OF assms(1)] assms(2)
  by (auto dest!: merged_playlist_obj simp: truthy_assign)

lemma assemble_content:
  assumes "user_prompt m ings = Inr u"
    and "w [] (CompletionCall (system_prompt lm) u (token_budget lm)) = Resolved d"
    and "groq_content d = Some c" and "truthy (Some c)"
  shows "assemble rt w m ings lm =
     (case parseContent rt c of
        Inl err \<Rightarrow> (Inl err, [CompletionCall (system_prompt lm) u (token_budget lm)])
      | Inr e \<Rightarrow>
          (case check_sections e requiredSections of
             Inl err \<Rightarrow> (Inl err, [CompletionCall (system_prompt lm) u (token_budget lm)])
           | Inr x \<Rightarrow>
               (case enrichPlaylist w [CompletionCall (system_prompt lm) u (token_budget lm)] m e of
                  (e', log') \<Rightarrow> (Inr e', log'))))"
  using generateContent_resolved [OF assms(1), of w "[]" lm d] assms(2-4)
  by (simp add: assemble_def)

lemma parseContent_text:
  "parseContent rt (JStr text) =
     (case JSON_parse rt text of None \<Rightarrow> Inl parse_failure | Some e \<Rightarrow> Inr e)"
  by (simp add: parseContent_def)

section \<open>Facts about the sample providers\<close>

lemma show_nat_0: "show_nat 0 = ''0''" by code_simp

lemma show_nat_1: "show_nat (Suc 0) = ''1''" by code_simp

lemma get_prop_arr_0:
  "get_prop (JArr xs) ''0'' = (case xs of [] \<Rightarrow> None | x # ys \<Rightarrow> Some x)"
proof (cases xs)
  case Nil
  then show ?thesis by simp
next
  case (Cons x ys)
  have "[0..<length (x # ys)] = 0 # [Suc 0..<Suc (length ys)]"
    by (simp add: upt_rec [of 0] del: upt_Suc)
  then show ?thesis using Cons by (simp add: show_nat_0 del: upt_Suc)
qed

lemma groq_content_completion_data: "groq_content (completion_data text) = Some (JStr text)"
  by (simp add: groq_content_def completion_data_def opt_member_def get_prop_arr_0 del: get_prop.simps(1))

lemma first_item_search_data:
  "first_item (search_data items) = (case items of [] \<Rightarrow> None | x # xs \<Rightarrow> Some x)"
  by (simp add: first_item_def search_data_def opt_member_def get_prop_arr_0 del: get_prop.simps(1))

lemma sample_parse_values:
  "JSON_parse sample_rt sample_experience_text = Some sample_experience"
  "JSON_parse sample_rt falsy_section_text = Some (JObj falsy_section_members)"
  "JSON_parse sample_rt ''abc'' = None"
  "JSON_parse sample_rt ''{}'' = Some (JObj [])"
  "JSON_parse sample_rt ''42'' = Some (JNum ''42'')"
  by (simp_all add: sample_rt_def sample_parse_def sample_experience_text_def falsy_section_text_def)

lemma sample_experience_complete:
  "find (\<lambda>k. \<not> truthy (get_prop sample_experience k)) requiredSections = None"
  by (simp add: sample_experience_def sample_playlist_def requiredSections_def)

lemma sample_world_completion:
  "providers (completion_reply text) tk sr [] (CompletionCall s u n) = Resolved (completion_data text)"
  by (simp add: providers_def completion_reply_def)

section \<open>Parsing and schema validation of the generated content\<close>

text \<open>
  Claim C1, as the code has it. Take a request to /api/experience that passed
  validation and whose completion request was answered with a non-empty text. If
  \<open>JSON.parse\<close> rejects the text, the response is the 500 whose details are
  \<open>Failed to parse AI response\<close>. If the text parses to a value other than \<open>null\<close>,
  the sections are tested for truthiness in the fixed order playlist, recipe, movie,
  colorPalette, meditation, outfit, writing: the first one that is missing or falsy
  (\<open>null\<close>, \<open>false\<close>, \<open>0\<close>, the empty string) gives the 500 whose details are
  \<open>Missing required section:\<close> followed by its name, which is also what every parsed
  value that is not an object gets, for the playlist. The text \<open>null\<close> gives a 500 as
  well. In all other cases the response is 200 and all seven sections of its body are
  truthy; so the response is a 500 exactly in the failing cases, and a 500 carries no
  section.
\<close>

theorem generated_content_gate:
  assumes "q_mood req = QStr m" "m \<noteq> []"
    and "parse_ingredients rt (q_ingredients req) = Inr ings"
    and "user_prompt m ings = Inr u"
    and "w [] (CompletionCall (system_prompt (long_mode (q_longMode req))) u
                 (token_budget (long_mode (q_longMode req)))) = Resolved d"
    and "groq_content d = Some (JStr text)" and "text \<noteq> []"
  shows
    "(JSON_parse rt text = None \<longrightarrow>
        fst (experience_handler rt w req) = fetch_failed ''Failed to parse AI response'')
     \<and> (\<forall>e k. JSON_parse rt text = Some e \<and> e \<noteq> JNull \<and>
            find (\<lambda>k. \<not> truthy (get_prop e k)) requiredSections = Some k \<longrightarrow>
          fst (experience_handler rt w req) = fetch_failed (''Missing required section: '' @ k))
     \<and> (JSON_parse rt text = Some JNull \<longrightarrow>
          status (fst (experience_handler rt w req)) = 500 \<and>
          (\<forall>k\<in>set requiredSections. get_prop (body (fst (experience_handler rt w req))) k = None))
     \<and> (\<forall>e. JSON_parse rt text = Some e \<and> e \<noteq> JNull \<and>
            find (\<lambda>k. \<not> truthy (get_prop e k)) requiredSections = None \<longrightarrow>
          status (fst (experience_handler rt w req)) = 200 \<and>
          (\<forall>k\<in>set requiredSections. truthy (get_prop (body (fst (experience_handler rt w req))) k)))
     \<and> (status (fst (experience_handler rt w req)) = 500 \<longleftrightarrow>
          (case JSON_parse rt text of
             None \<Rightarrow> True
           | Some e \<Rightarrow> e = JNull \<or> find (\<lambda>k. \<not> truthy (get_prop e k)) requiredSections \<noteq> None))"
proof -
  let ?lm = "long_mode (q_longMode req)"
  let ?c = "CompletionCall (system_prompt ?lm) u (token_budget ?lm)"
  let ?r = "fst (experience_handler rt w req)"
  have tr: "truthy (Some (JStr text))" using assms(7) by simp
  have h: "experience_handler rt w req =
     (case assemble rt w m ings ?lm of
        (Inl err, log) \<Rightarrow> (experience_error err, log)
      | (Inr e, log) \<Rightarrow> (\<lparr>status = 200, body = e\<rparr>, log))"
    by (rule experience_after_validation [OF assms(1-3)])
  have a: "assemble rt w m ings ?lm =
     (case JSON_parse rt text of
        None \<Rightarrow> (Inl parse_failure, [?c])
      | Some e \<Rightarrow>
          (case check_sections e requiredSections of
             Inl err \<Rightarrow> (Inl err, [?c])
           | Inr x \<Rightarrow> (case enrichPlaylist w [?c] m e of (e', log') \<Rightarrow> (Inr e', log'))))"
    using assemble_content [of m ings u w ?lm d "JStr text" rt] assms(4-6) tr
    by (simp add: parseContent_text split: option.splits)
  have none: "?r = fetch_failed ''Failed to parse AI response''" if "JSON_parse rt text = None"
    using that h a by (simp add: parse_failure_response)
  have miss: "?r = fetch_failed (''Missing required section: '' @ k)"
    if "JSON_parse rt text = Some e" "e \<noteq> JNull"
       "find (\<lambda>k. \<not> truthy (get_prop e k)) requiredSections = Some k" for e k
  proof -
    have "k \<in> set requiredSections" using that(3) by (auto simp: find_Some_iff)
    then show ?thesis
      using that h a check_sections_find [OF that(2), of requiredSections]
      by (simp add: missing_section_response)
  qed
  have null: "?r = fetch_failed (''Cannot read properties of null (reading '' @ [CHR 0x27] @ ''playlist'' @ [CHR 0x27] @ '')'')"
    if "JSON_parse rt text = Some JNull"
    using that h a by (simp add: check_sections_null experience_error_def del: check_sections.simps)
  have ok: "status ?r = 200 \<and> (\<forall>k\<in>set requiredSections. truthy (get_prop (body ?r) k))"
    if "JSON_parse rt text = Some e" "e \<noteq> JNull"
       "find (\<lambda>k. \<not> truthy (get_prop e k)) requiredSections = None" for e
  proof -
    have cs: "check_sections e requiredSections = Inr ()"
      using check_sections_find [OF that(2), of requiredSections] that(3) by simp
    obtain e' l where en: "enrichPlaylist w [?c] m e = (e', l)" by fastforce
    have r: "?r = \<lparr>status = 200, body = e'\<rparr>"
      using that(1) h a cs en by simp
    have "\<forall>k\<in>set requiredSections. truthy (get_prop e' k)"
      using check_sections_ok(2) [OF cs] enrichPlaylist_sections [OF en] by blast
    with r show ?thesis by simp
  qed
  have c1: "JSON_parse rt text = None \<longrightarrow> ?r = fetch_failed ''Failed to parse AI response''"
    using none by blast
  have c2: "\<forall>e k. JSON_parse rt text = Some e \<and> e \<noteq> JNull \<and>
            find (\<lambda>k. \<not> truthy (get_prop e k)) requiredSections = Some k \<longrightarrow>
          ?r = fetch_failed (''Missing required section: '' @ k)"
    using miss by blast
  have c3: "JSON_parse rt text = Some JNull \<longrightarrow>
          status ?r = 500 \<and> (\<forall>k\<in>set requiredSections. get_prop (body ?r) k = None)"
    using null by (simp add: fetch_failed_def requiredSections_def)
  have c4: "\<forall>e. JSON_parse rt text = Some e \<and> e \<noteq> JNull \<and>
            find (\<lambda>k. \<not> truthy (get_prop e k)) requiredSections = None \<longrightarrow>
          status ?r = 200 \<and> (\<forall>k\<in>set requiredSections. truthy (get_prop (body ?r) k))"
    using ok by blast
  have c5: "status ?r = 500 \<longleftrightarrow>
          (case JSON_parse rt text of
             None \<Rightarrow> True
           | Some e \<Rightarrow> e = JNull \<or> find (\<lambda>k. \<not> truthy (get_prop e k)) requiredSections \<noteq> None)"
  proof (cases "JSON_parse rt text")
    case None
    then show ?thesis using none by (simp add: fetch_failed_def)
  next
    case (Some e)
    show ?thesis
    proof (cases "e = JNull")
      case True
      then show ?thesis using Some null by (simp add: fetch_failed_def)
    next
      case False
      show ?thesis
      proof (cases "find (\<lambda>k. \<not> truthy (get_prop e k)) requiredSections")
        case None
        then show ?thesis using Some False ok [of e] by simp
      next
        case (Some k)
        then show ?thesis using \<open>JSON_parse rt text = Some e\<close> False miss [of e k]
          by (simp add: fetch_failed_def)
      qed
    qed
  qed
  from c1 c2 c3 c4 c5 show ?thesis by blast
qed

theorem generated_content_gate_witness:
  "status (fst (experience_handler sample_rt
      (providers (completion_reply sample_experience_text) unreachable (always unreachable))
      \<lparr>q_mood = QStr ''calm'', q_ingredients = Absent, q_longMode = Absent\<rparr>)) = 200
   \<and> fst (experience_handler sample_rt
      (providers (completion_reply ''abc'') unreachable (always unreachable))
      \<lparr>q_mood = QStr ''calm'', q_ingredients = Absent, q_longMode = Absent\<rparr>)
     = fetch_failed ''Failed to parse AI response''
   \<and> fst (experience_handler sample_rt
      (providers (completion_reply ''{}'') unreachable (always unreachable))
      \<lparr>q_mood = QStr ''calm'', q_ingredients = Absent, q_longMode = Absent\<rparr>)
     = fetch_failed ''Missing required section: playlist''"
proof -
  let ?req = "\<lparr>q_mood = QStr ''calm'', q_ingredients = Absent, q_longMode = Absent\<rparr>"
  let ?u = "''Generate a vibe card for mood: '' @ [CHR 0x22] @ ''calm'' @ [CHR 0x22]"
  have pi: "parse_ingredients sample_rt (q_ingredients ?req) = Inr []"
    by (simp add: parse_ingredients_def)
  have up: "user_prompt ''calm'' [] = Inr ?u"
    by (simp add: user_prompt_def)
  have g: "\<And>text. providers (completion_reply text) unreachable (always unreachable) []
        (CompletionCall (system_prompt (long_mode (q_longMode ?req))) ?u
           (token_budget (long_mode (q_longMode ?req)))) = Resolved (completion_data text)"
    by (rule sample_world_completion)
  have f: "find (\<lambda>k. \<not> truthy (get_prop (JObj []) k)) requiredSections = Some ''playlist''"
    by (simp add: requiredSections_def)
  have a: "status (fst (experience_handler sample_rt
      (providers (completion_reply sample_experience_text) unreachable (always unreachable)) ?req)) = 200"
    using generated_content_gate [of ?req "''calm''" sample_rt "[]" ?u
        "providers (completion_reply sample_experience_text) unreachable (always unreachable)"
        "completion_data sample_experience_text" sample_experience_text]
      pi up g [of sample_experience_text] groq_content_completion_data [of sample_experience_text]
      sample_parse_values(1) sample_experience_complete
    by (simp add: sample_experience_text_def sample_experience_def)
  have b: "fst (experience_handler sample_rt
      (providers (completion_reply ''abc'') unreachable (always unreachable)) ?req)
     = fetch_failed ''Failed to parse AI response''"
    using generated_content_gate [of ?req "''calm''" sample_rt "[]" ?u
        "providers (completion_reply ''abc'') unreachable (always unreachable)"
        "completion_data ''abc''" "''abc''"]
      pi up g [of "''abc''"] groq_content_completion_data [of "''abc''"] sample_parse_values(3)
    by simp
  have c: "fst (experience_handler sample_rt
      (providers (completion_reply ''{}'') unreachable (always unreachable)) ?req)
     = fetch_failed ''Missing required section: playlist''"
    using generated_content_gate [of ?req "''calm''" sample_rt "[]" ?u
        "providers (completion_reply ''{}'') unreachable (always unreachable)"
        "completion_data ''{}''" "''{}''"]
      pi up g [of "''{}''"] groq_content_completion_data [of "''{}''"] sample_parse_values(4) f
    by simp
  from a b c show ?thesis by blast
qed

text \<open>
  A text that parses as one JSON object with all seven keys, one of them \<open>false\<close>,
  fails with 500 although no key is lacking.
\<close>

theorem falsy_section_counterexample:
  "JSON_parse sample_rt falsy_section_text = Some (JObj falsy_section_members)
   \<and> set requiredSections \<subseteq> fst ` set falsy_section_members
   \<and> fst (experience_handler sample_rt
        (providers (completion_reply falsy_section_text) token_reply (always (search_reply [sample_match])))
        \<lparr>q_mood = QStr ''calm'', q_ingredients = Absent, q_longMode = Absent\<rparr>)
      = fetch_failed ''Missing required section: meditation''"
proof -
  let ?req = "\<lparr>q_mood = QStr ''calm'', q_ingredients = Absent, q_longMode = Absent\<rparr>"
  let ?w = "providers (completion_reply falsy_section_text) token_reply (always (search_reply [sample_match]))"
  have 1: "JSON_parse sample_rt falsy_section_text = Some (JObj falsy_section_members)"
    by (rule sample_parse_values(2))
  have 2: "set requiredSections \<subseteq> fst ` set falsy_section_members"
    by (simp add: requiredSections_def falsy_section_members_def)
  have gc: "generateContent ?w [] ''calm'' [] False =
      (Inr (JStr falsy_section_text),
       [CompletionCall (system_prompt False)
          (''Generate a vibe card for mood: '' @ [CHR 0x22] @ ''calm'' @ [CHR 0x22]) (token_budget False)])"
    by (simp add: generateContent_def user_prompt_def axios_def providers_def completion_reply_def
        groq_content_completion_data falsy_section_text_def)
  have cs: "check_sections (JObj falsy_section_members) requiredSections
      = Inl (missing_section ''meditation'')"
    by (simp add: requiredSections_def falsy_section_members_def read_member_def)
  have "assemble sample_rt ?w ''calm'' [] False =
      (Inl (missing_section ''meditation''),
       [CompletionCall (system_prompt False)
          (''Generate a vibe card for mood: '' @ [CHR 0x22] @ ''calm'' @ [CHR 0x22]) (token_budget False)])"
    using 1 by (simp add: assemble_def gc parseContent_text cs)
  then have 3: "fst (experience_handler sample_rt ?w ?req) = fetch_failed ''Missing required section: meditation''"
    by (simp add: experience_handler_def valid_mood_def parse_ingredients_def long_mode_def
        missing_section_def experience_error_def)
  from 1 2 3 show ?thesis by blast
qed

section \<open>Playlist enrichment\<close>

lemma map_of_put: "map_of (put k v kvs) k' = (if k' = k then v else map_of kvs k')"
  by (cases v) (simp_all add: put_def update_conv' delete_conv')

lemma show_nat_digits: "c \<in> set (show_nat n) \<Longrightarrow> (of_char c :: nat) \<in> {48..57}"
proof (induction n rule: show_nat.induct)
  case (1 n)
  show ?case
  proof (cases "n < 10")
    case True
    then have "show_nat n = [char_of (48 + n)]" by (simp add: show_nat.simps)
    with 1(2) have "c = char_of (48 + n)" by simp
    then have "(of_char c :: nat) = 48 + n" using True by simp
    then show ?thesis using True by simp
  next
    case False
    then have s: "show_nat n = show_nat (n div 10) @ [char_of (48 + n mod 10)]"
      by (subst show_nat.simps) simp
    from 1(2) s consider "c \<in> set (show_nat (n div 10))" | "c = char_of (48 + n mod 10)"
      by auto
    then show ?thesis
    proof cases
      case 1
      then show ?thesis using "1.IH" False by simp
    next
      case 2
      have "n mod 10 < 10" by simp
      then have "(of_char c :: nat) = 48 + n mod 10" using 2 by simp
      then show ?thesis by simp
    qed
  qed
qed

lemma letter_key_not_index:
  assumes "k \<noteq> []" and "(of_char (hd k) :: nat) \<notin> {48..57}"
  shows "k \<notin> set (map show_nat ns)"
proof
  assume "k \<in> set (map show_nat ns)"
  then obtain n where "k = show_nat n" by auto
  then have "hd k \<in> set (show_nat n)" using assms(1) by (metis hd_in_set)
  then show False using show_nat_digits assms(2) by blast
qed

lemma index_lookup_none:
  assumes "k \<noteq> []" and "(of_char (hd k) :: nat) \<notin> {48..57}"
  shows "map_of (zip (map show_nat ns) vs) k = None"
proof -
  have "k \<notin> fst ` set (zip (map show_nat ns) vs)"
    using letter_key_not_index [OF assms, of ns] by (auto dest: set_zip_leftD)
  then show ?thesis by (simp add: map_of_eq_None_iff)
qed

lemma section_implies_object:
  assumes "truthy (get_prop e ''playlist'')"
  shows "\<exists>kvs. e = JObj kvs"
proof (cases e)
  case (JArr xs)
  have "get_prop (JArr xs) ''playlist'' = None"
    by (simp add: index_lookup_none)
  then show ?thesis using assms JArr by (simp del: get_prop.simps)
next
  case (JStr s)
  have "get_prop (JStr s) ''playlist'' = None"
    by (simp add: index_lookup_none)
  then show ?thesis using assms JStr by (simp del: get_prop.simps)
qed (use assms in simp_all)

lemma get_prop_truthy:
  assumes "get_prop td ''access_token'' = Some v"
  shows "truthy (Some td)"
  using assms by (cases td) (auto split: if_splits)

lemma getSpotifyToken_rejected:
  "w log TokenCall = Rejected st msg \<Longrightarrow>
   getSpotifyToken w log = (Inl (token_failure msg), log @ [TokenCall])"
  by (simp add: getSpotifyToken_def axios_def)

lemma getSpotifyToken_no_token:
  "w log TokenCall = Resolved td \<Longrightarrow> \<not> truthy (get_prop td ''access_token'') \<Longrightarrow>
   getSpotifyToken w log =
     (Inl (token_failure ''Invalid response from Spotify API: No access token received''),
      log @ [TokenCall])"
  by (simp add: getSpotifyToken_def axios_def)

lemma getSpotifyToken_ok:
  "w log TokenCall = Resolved td \<Longrightarrow> get_prop td ''access_token'' = Some tok \<Longrightarrow>
   truthy (Some tok) \<Longrightarrow>
   getSpotifyToken w log = (Inr tok, log @ [TokenCall])"
  using get_prop_truthy [of td tok] by (simp add: getSpotifyToken_def axios_def)

lemma enrichPlaylist_token_failed:
  "fst (getSpotifyToken w log) = Inl err \<Longrightarrow> fst (enrichPlaylist w log m e) = e"
  by (auto simp: enrichPlaylist_def split: prod.splits sum.splits)

lemma enrichPlaylist_search_rejected:
  assumes "getSpotifyToken w log = (Inr tok, log1)" and "to_string tok = Inr t"
    and "w log1 (SearchCall (''Bearer '' @ t) (m @ '' playlist'') 1) = Rejected st msg"
  shows "fst (enrichPlaylist w log m e) = e"
  using assms by (simp add: enrichPlaylist_def axios_def)

lemma enrichPlaylist_no_match:
  assumes "getSpotifyToken w log = (Inr tok, log1)" and "to_string tok = Inr t"
    and "w log1 (SearchCall (''Bearer '' @ t) (m @ '' playlist'') 1) = Resolved d"
    and "\<not> truthy (first_item d)"
  shows "fst (enrichPlaylist w log m e) = e"
  using assms by (auto simp: enrichPlaylist_def axios_def split: option.splits)

lemma enrichPlaylist_match:
  assumes "getSpotifyToken w log = (Inr tok, log1)" and "to_string tok = Inr t"
    and "w log1 (SearchCall (''Bearer '' @ t) (m @ '' playlist'') 1) = Resolved d"
    and "first_item d = Some item" and "truthy (Some item)"
    and "merged_playlist e item = Inr p"
  shows "fst (enrichPlaylist w log m e) = assign e ''playlist'' p"
  using assms by (simp add: enrichPlaylist_def axios_def)

lemma experience_validated:
  assumes "q_mood req = QStr m" "m \<noteq> []"
    and "parse_ingredients rt (q_ingredients req) = Inr ings"
    and "user_prompt m ings = Inr u"
    and "w [] (CompletionCall (system_prompt (long_mode (q_longMode req))) u
                 (token_budget (long_mode (q_longMode req)))) = Resolved d"
    and "groq_content d = Some c" and "truthy (Some c)"
    and "parseContent rt c = Inr e"
    and "check_sections e requiredSections = Inr ()"
  shows "fst (experience_handler rt w req) =
     \<lparr>status = 200,
      body = fst (enrichPlaylist w
        [CompletionCall (system_prompt (long_mode (q_longMode req))) u
           (token_budget (long_mode (q_longMode req)))] m e)\<rparr>"
proof -
  let ?lm = "long_mode (q_longMode req)"
  have "assemble rt w m ings ?lm =
      (case enrichPlaylist w [CompletionCall (system_prompt ?lm) u (token_budget ?lm)] m e of
         (e', log') \<Rightarrow> (Inr e', log'))"
    using assemble_content [of m ings u w ?lm d c rt] assms(4-9) by simp
  then show ?thesis
    using experience_after_validation [OF assms(1-3), of w]
    by (simp split: prod.splits)
qed

lemma sample_experience_valid:
  "parseContent sample_rt (JStr sample_experience_text) = Inr sample_experience"
  "check_sections sample_experience requiredSections = Inr ()"
  by (simp_all add: parseContent_text sample_parse_values requiredSections_def
      sample_experience_def sample_playlist_def read_member_def)

text \<open>
  Claim C2. Take a request to /api/experience whose completion output passed parsing
  and the check of the seven sections. Whatever the catalog provider does afterwards,
  the response has status 200. When the token request is rejected, when its answer
  carries no access token, when the search request is rejected, or when the search
  answer has no first item, the body is the parsed experience itself, so its playlist
  section is the generated one, field for field.
\<close>

theorem enrichment_failure_is_swallowed:
  assumes "q_mood req = QStr m" "m \<noteq> []"
    and "parse_ingredients rt (q_ingredients req) = Inr ings"
    and "user_prompt m ings = Inr u"
    and "cc = CompletionCall (system_prompt (long_mode (q_longMode req))) u
                 (token_budget (long_mode (q_longMode req)))"
    and "w [] cc = Resolved d"
    and "groq_content d = Some c" and "truthy (Some c)"
    and "parseContent rt c = Inr e"
    and "check_sections e requiredSections = Inr ()"
  shows
    "status (fst (experience_handler rt w req)) = 200
     \<and> ((\<exists>st msg. w [cc] TokenCall = Rejected st msg) \<longrightarrow>
          body (fst (experience_handler rt w req)) = e)
     \<and> ((\<exists>td. w [cc] TokenCall = Resolved td \<and> \<not> truthy (get_prop td ''access_token'')) \<longrightarrow>
          body (fst (experience_handler rt w req)) = e)
     \<and> (\<forall>td tok t.
           w [cc] TokenCall = Resolved td \<and> get_prop td ''access_token'' = Some tok \<and>
           truthy (Some tok) \<and> to_string tok = Inr t \<and>
           (\<exists>st msg. w [cc, TokenCall] (SearchCall (''Bearer '' @ t) (m @ '' playlist'') 1)
                        = Rejected st msg) \<longrightarrow>
          body (fst (experience_handler rt w req)) = e)
     \<and> (\<forall>td tok t.
           w [cc] TokenCall = Resolved td \<and> get_prop td ''access_token'' = Some tok \<and>
           truthy (Some tok) \<and> to_string tok = Inr t \<and>
           (\<exists>sd. w [cc, TokenCall] (SearchCall (''Bearer '' @ t) (m @ '' playlist'') 1)
                        = Resolved sd \<and> \<not> truthy (first_item sd)) \<longrightarrow>
          body (fst (experience_handler rt w req)) = e)"
proof -
  let ?r = "fst (experience_handler rt w req)"
  have r: "?r = \<lparr>status = 200, body = fst (enrichPlaylist w [cc] m e)\<rparr>"
    using experience_validated [of req m rt ings u w d c e] assms by simp
  have c1: "status ?r = 200" using r by simp
  have c2: "body ?r = e" if "\<exists>st msg. w [cc] TokenCall = Rejected st msg"
  proof -
    from that obtain st msg where "w [cc] TokenCall = Rejected st msg" by blast
    then have "fst (getSpotifyToken w [cc]) = Inl (token_failure msg)"
      by (simp add: getSpotifyToken_rejected)
    then show ?thesis using r enrichPlaylist_token_failed by simp
  qed
  have c3: "body ?r = e"
    if "\<exists>td. w [cc] TokenCall = Resolved td \<and> \<not> truthy (get_prop td ''access_token'')"
  proof -
    from that obtain td where "w [cc] TokenCall = Resolved td" "\<not> truthy (get_prop td ''access_token'')"
      by blast
    then have "fst (getSpotifyToken w [cc]) =
        Inl (token_failure ''Invalid response from Spotify API: No access token received'')"
      by (simp add: getSpotifyToken_no_token)
    then show ?thesis using r enrichPlaylist_token_failed by simp
  qed
  have c4: "body ?r = e"
    if "w [cc] TokenCall = Resolved td" "get_prop td ''access_token'' = Some tok"
       "truthy (Some tok)" "to_string tok = Inr t"
       "\<exists>st msg. w [cc, TokenCall] (SearchCall (''Bearer '' @ t) (m @ '' playlist'') 1)
                        = Rejected st msg" for td tok t
  proof -
    have g: "getSpotifyToken w [cc] = (Inr tok, [cc, TokenCall])"
      using getSpotifyToken_ok [of w "[cc]" td tok] that(1-3) by simp
    from that(5) obtain st msg where
      "w [cc, TokenCall] (SearchCall (''Bearer '' @ t) (m @ '' playlist'') 1) = Rejected st msg"
      by blast
    then show ?thesis
      using r enrichPlaylist_search_rejected [of w "[cc]" tok "[cc, TokenCall]" t m st msg e] g that(4)
      by simp
  qed
  have c5: "body ?r = e"
    if "w [cc] TokenCall = Resolved td" "get_prop td ''access_token'' = Some tok"
       "truthy (Some tok)" "to_string tok = Inr t"
       "\<exists>sd. w [cc, TokenCall] (SearchCall (''Bearer '' @ t) (m @ '' playlist'') 1)
                        = Resolved sd \<and> \<not> truthy (first_item sd)" for td tok t
  proof -
    have g: "getSpotifyToken w [cc] = (Inr tok, [cc, TokenCall])"
      using getSpotifyToken_ok [of w "[cc]" td tok] that(1-3) by simp
    from that(5) obtain sd where
      "w [cc, TokenCall] (SearchCall (''Bearer '' @ t) (m @ '' playlist'') 1) = Resolved sd"
      "\<not> truthy (first_item sd)"
      by blast
    then show ?thesis
      using r enrichPlaylist_no_match [of w "[cc]" tok "[cc, TokenCall]" t m sd e] g that(4)
      by simp
  qed
  from c1 c2 c3 c4 c5 show ?thesis by blast
qed

theorem enrichment_failure_is_swallowed_witness:
  "status (fst (experience_handler sample_rt
      (providers (completion_reply sample_experience_text) token_reply (always (search_reply [])))
      \<lparr>q_mood = QStr ''calm'', q_ingredients = Absent, q_longMode = Absent\<rparr>)) = 200
   \<and> body (fst (experience_handler sample_rt
      (providers (completion_reply sample_experience_text) token_reply (always (search_reply [])))
      \<lparr>q_mood = QStr ''calm'', q_ingredients = Absent, q_longMode = Absent\<rparr>)) = sample_experience
   \<and> body (fst (experience_handler sample_rt
      (providers (completion_reply sample_experience_text) (rejected 401) (always unreachable))
      \<lparr>q_mood = QStr ''calm'', q_ingredients = Absent, q_longMode = Absent\<rparr>)) = sample_experience"
proof -
  let ?req = "\<lparr>q_mood = QStr ''calm'', q_ingredients = Absent, q_longMode = Absent\<rparr>"
  let ?u = "''Generate a vibe card for mood: '' @ [CHR 0x22] @ ''calm'' @ [CHR 0x22]"
  let ?cc = "CompletionCall (system_prompt (long_mode (q_longMode ?req))) ?u
                 (token_budget (long_mode (q_longMode ?req)))"
  let ?w1 = "providers (completion_reply sample_experience_text) token_reply (always (search_reply []))"
  let ?w2 = "providers (completion_reply sample_experience_text) (rejected 401) (always unreachable)"
  have pi: "parse_ingredients sample_rt (q_ingredients ?req) = Inr []"
    by (simp add: parse_ingredients_def)
  have up: "user_prompt ''calm'' [] = Inr ?u"
    by (simp add: user_prompt_def)
  have tr: "truthy (Some (JStr sample_experience_text))"
    by (simp add: sample_experience_text_def)
  have tk: "?w1 [?cc] TokenCall = Resolved token_data"
       "get_prop token_data ''access_token'' = Some (JStr ''tok'')"
       "truthy (Some (JStr ''tok''))" "to_string (JStr ''tok'') = Inr ''tok''"
    by (simp_all add: providers_def token_reply_def token_data_def)
  have sr: "?w1 [?cc, TokenCall] (SearchCall (''Bearer '' @ ''tok'') (''calm'' @ '' playlist'') 1)
        = Resolved (search_data [])"
       "\<not> truthy (first_item (search_data []))"
    by (simp_all add: providers_def always_def search_reply_def first_item_search_data)
  have rj: "?w2 [?cc] TokenCall = Rejected (Some 401) (''Request failed with status code '' @ show_nat 401)"
    by (simp add: providers_def rejected_def)
  have a: "status (fst (experience_handler sample_rt ?w1 ?req)) = 200
      \<and> body (fst (experience_handler sample_rt ?w1 ?req)) = sample_experience"
    using enrichment_failure_is_swallowed [of ?req "''calm''" sample_rt "[]" ?u ?cc ?w1
        "completion_data sample_experience_text" "JStr sample_experience_text" sample_experience]
      pi up tr tk sr sample_world_completion [of sample_experience_text]
      groq_content_completion_data [of sample_experience_text] sample_experience_valid
    by (simp del: truthy.simps)
  have b: "body (fst (experience_handler sample_rt ?w2 ?req)) = sample_experience"
    using enrichment_failure_is_swallowed [of ?req "''calm''" sample_rt "[]" ?u ?cc ?w2
        "completion_data sample_experience_text" "JStr sample_experience_text" sample_experience]
      pi up tr rj sample_world_completion [of sample_experience_text]
      groq_content_completion_data [of sample_experience_text] sample_experience_valid
    by (simp del: truthy.simps)
  from a b show ?thesis by blast
qed

text \<open>
  Claim C5. Take a request to /api/experience whose completion output passed parsing
  and the check of the seven sections, for which the token request succeeds and the
  search answers with a first item that carries \<open>external_urls\<close>. The response has status
  200; the name, description and images of its playlist section are those of the
  item and its url is the item's \<open>external_urls.spotify\<close>, where a field the item
  does not have is absent from the section too; every other field of the playlist
  section (genre and theme among them) is the generated one, and so is every other
  section.
\<close>

theorem catalog_match_overrides_playlist:
  assumes "q_mood req = QStr m" "m \<noteq> []"
    and "parse_ingredients rt (q_ingredients req) = Inr ings"
    and "user_prompt m ings = Inr u"
    and "cc = CompletionCall (system_prompt (long_mode (q_longMode req))) u
                 (token_budget (long_mode (q_longMode req)))"
    and "w [] cc = Resolved d"
    and "groq_content d = Some c" and "truthy (Some c)"
    and "parseContent rt c = Inr e"
    and "check_sections e requiredSections = Inr ()"
    and "w [cc] TokenCall = Resolved td" and "get_prop td ''access_token'' = Some tok"
    and "truthy (Some tok)" and "to_string tok = Inr t"
    and "w [cc, TokenCall] (SearchCall (''Bearer '' @ t) (m @ '' playlist'') 1) = Resolved sd"
    and "first_item sd = Some item" and "truthy (Some item)"
    and "get_prop item ''external_urls'' = Some eu" and "eu \<noteq> JNull"
  shows
    "status (fst (experience_handler rt w req)) = 200
     \<and> (\<exists>p p0. get_prop (body (fst (experience_handler rt w req))) ''playlist'' = Some p
          \<and> get_prop e ''playlist'' = Some p0
          \<and> get_prop p ''name'' = get_prop item ''name''
          \<and> get_prop p ''description'' = get_prop item ''description''
          \<and> get_prop p ''url'' = get_prop eu ''spotify''
          \<and> get_prop p ''images'' = get_prop item ''images''
          \<and> (\<forall>k. k \<notin> {''name'', ''description'', ''url'', ''images''} \<longrightarrow>
                 get_prop p k = map_of (own_props p0) k))
     \<and> (\<forall>k. k \<noteq> ''playlist'' \<longrightarrow>
           get_prop (body (fst (experience_handler rt w req))) k = get_prop e k)"
proof -
  let ?r = "fst (experience_handler rt w req)"
  have r: "?r = \<lparr>status = 200, body = fst (enrichPlaylist w [cc] m e)\<rparr>"
    using experience_validated [of req m rt ings u w d c e] assms(1-10) by simp
  have tp: "truthy (get_prop e ''playlist'')"
    using check_sections_ok(2) [OF assms(10)] by (simp add: requiredSections_def)
  then obtain kvs where e: "e = JObj kvs" using section_implies_object by blast
  from tp obtain p0 where p0: "get_prop e ''playlist'' = Some p0"
    by (cases "get_prop e ''playlist''") simp_all
  define p where "p = JObj (put ''images'' (get_prop item ''images'')
                    (put ''url'' (get_prop eu ''spotify'')
                    (put ''description'' (get_prop item ''description'')
                    (put ''name'' (get_prop item ''name'') (own_props p0)))))"
  have mp: "merged_playlist e item = Inr p"
    using assms(18,19) p0 by (simp add: merged_playlist_def read_member_value p_def)
  have g: "getSpotifyToken w [cc] = (Inr tok, [cc, TokenCall])"
    using getSpotifyToken_ok [of w "[cc]" td tok] assms(11-13) by simp
  have b: "body ?r = JObj (AList.update ''playlist'' p kvs)"
    using r enrichPlaylist_match [of w "[cc]" tok "[cc, TokenCall]" t m sd item e p]
      g assms(14-17) mp e
    by (simp add: assign_def)
  have c1: "status ?r = 200" using r by simp
  have f1: "get_prop (body ?r) ''playlist'' = Some p" using b by (simp add: update_conv')
  have f2: "get_prop p ''name'' = get_prop item ''name''"
       "get_prop p ''description'' = get_prop item ''description''"
       "get_prop p ''url'' = get_prop eu ''spotify''"
       "get_prop p ''images'' = get_prop item ''images''"
    by (simp_all add: p_def map_of_put)
  have f3: "\<forall>k. k \<notin> {''name'', ''description'', ''url'', ''images''} \<longrightarrow>
                 get_prop p k = map_of (own_props p0) k"
    by (simp add: p_def map_of_put)
  have c3: "\<forall>k. k \<noteq> ''playlist'' \<longrightarrow> get_prop (body ?r) k = get_prop e k"
    using b e by (simp add: update_conv')
  from c1 f1 p0 f2 f3 c3 show ?thesis by blast
qed

theorem catalog_match_overrides_playlist_witness:
  "opt_member (get_prop (body (fst (experience_handler sample_rt
      (providers (completion_reply sample_experience_text) token_reply (always (search_reply [sample_match])))
      \<lparr>q_mood = QStr ''calm'', q_ingredients = Absent, q_longMode = Absent\<rparr>))) ''playlist'') ''name''
     = Some (JStr ''Deep Calm'')
   \<and> opt_member (get_prop (body (fst (experience_handler sample_rt
      (providers (completion_reply sample_experience_text) token_reply (always (search_reply [sample_match])))
      \<lparr>q_mood = QStr ''calm'', q_ingredients = Absent, q_longMode = Absent\<rparr>))) ''playlist'') ''url''
     = Some (JStr ''https://open.example/p1'')
   \<and> opt_member (get_prop (body (fst (experience_handler sample_rt
      (providers (completion_reply sample_experience_text) token_reply (always (search_reply [sample_match])))
      \<lparr>q_mood = QStr ''calm'', q_ingredients = Absent, q_longMode = Absent\<rparr>))) ''playlist'') ''genre''
     = Some (JStr ''ambient'')
   \<and> get_prop (body (fst (experience_handler sample_rt
      (providers (completion_reply sample_experience_text) token_reply (always (search_reply [sample_match])))
      \<lparr>q_mood = QStr ''calm'', q_ingredients = Absent, q_longMode = Absent\<rparr>))) ''recipe''
     = Some (JObj [(''title'', JStr ''Tea'')])"
proof -
  let ?req = "\<lparr>q_mood = QStr ''calm'', q_ingredients = Absent, q_longMode = Absent\<rparr>"
  let ?u = "''Generate a vibe card for mood: '' @ [CHR 0x22] @ ''calm'' @ [CHR 0x22]"
  let ?cc = "CompletionCall (system_prompt (long_mode (q_longMode ?req))) ?u
                 (token_budget (long_mode (q_longMode ?req)))"
  let ?w = "providers (completion_reply sample_experience_text) token_reply (always (search_reply [sample_match]))"
  let ?b = "body (fst (experience_handler sample_rt ?w ?req))"
  have pi: "parse_ingredients sample_rt (q_ingredients ?req) = Inr []"
    by (simp add: parse_ingredients_def)
  have up: "user_prompt ''calm'' [] = Inr ?u"
    by (simp add: user_prompt_def)
  have tr: "truthy (Some (JStr sample_experience_text))"
    by (simp add: sample_experience_text_def)
  have tk: "?w [?cc] TokenCall = Resolved token_data"
       "get_prop token_data ''access_token'' = Some (JStr ''tok'')"
       "truthy (Some (JStr ''tok''))" "to_string (JStr ''tok'') = Inr ''tok''"
    by (simp_all add: providers_def token_reply_def token_data_def)
  have sr: "?w [?cc, TokenCall] (SearchCall (''Bearer '' @ ''tok'') (''calm'' @ '' playlist'') 1)
        = Resolved (search_data [sample_match])"
       "first_item (search_data [sample_match]) = Some sample_match"
       "truthy (Some sample_match)"
       "get_prop sample_match ''external_urls'' = Some (JObj [(''spotify'', JStr ''https://open.example/p1'')])"
       "JObj [(''spotify'', JStr ''https://open.example/p1'')] \<noteq> JNull"
    by (simp_all add: providers_def always_def search_reply_def first_item_search_data sample_match_def)
  have "\<exists>p p0. get_prop ?b ''playlist'' = Some p
          \<and> get_prop sample_experience ''playlist'' = Some p0
          \<and> get_prop p ''name'' = get_prop sample_match ''name''
          \<and> get_prop p ''description'' = get_prop sample_match ''description''
          \<and> get_prop p ''url'' = get_prop (JObj [(''spotify'', JStr ''https://open.example/p1'')]) ''spotify''
          \<and> get_prop p ''images'' = get_prop sample_match ''images''
          \<and> (\<forall>k. k \<notin> {''name'', ''description'', ''url'', ''images''} \<longrightarrow>
                 get_prop p k = map_of (own_props p0) k)"
    and rest: "\<forall>k. k \<noteq> ''playlist'' \<longrightarrow> get_prop ?b k = get_prop sample_experience k"
    using catalog_match_overrides_playlist [of ?req "''calm''" sample_rt "[]" ?u ?cc ?w
        "completion_data sample_experience_text" "JStr sample_experience_text" sample_experience
        token_data "JStr ''tok''" "''tok''" "search_data [sample_match]" sample_match
        "JObj [(''spotify'', JStr ''https://open.example/p1'')]"]
      pi up tr tk sr sample_world_completion [of sample_experience_text]
      groq_content_completion_data [of sample_experience_text] sample_experience_valid
    by (simp_all del: truthy.simps get_prop.simps)
  then obtain p p0 where p: "get_prop ?b ''playlist'' = Some p"
      "get_prop sample_experience ''playlist'' = Some p0"
      "get_prop p ''name'' = get_prop sample_match ''name''"
      "get_prop p ''url'' = get_prop (JObj [(''spotify'', JStr ''https://open.example/p1'')]) ''spotify''"
      "\<forall>k. k \<notin> {''name'', ''description'', ''url'', ''images''} \<longrightarrow>
                 get_prop p k = map_of (own_props p0) k"
    by blast
  have p0: "p0 = sample_playlist" using p(2) by (simp add: sample_experience_def)
  have n: "get_prop p ''name'' = Some (JStr ''Deep Calm'')"
    using p(3) by (simp add: sample_match_def)
  then have nn: "p \<noteq> JNull" by auto
  have om: "opt_member (Some p) k = get_prop p k" for k
    using nn by (cases p) (simp_all add: opt_member_def)
  have u: "get_prop p ''url'' = Some (JStr ''https://open.example/p1'')"
    using p(4) by simp
  have g: "get_prop p ''genre'' = Some (JStr ''ambient'')"
    using p(5) p0 by (simp add: sample_playlist_def)
  have r: "get_prop ?b ''recipe'' = Some (JObj [(''title'', JStr ''Tea'')])"
    using rest by (simp add: sample_experience_def)
  show ?thesis
    using p(1) n u g r om by simp
qed

section \<open>Status codes of /api/experience\<close>

text \<open>
  Claim C8, as the code has it, for /api/experience. For a request that passed
  validation, a completion request rejected with HTTP 401 gives the response status
  401, one rejected with 429 gives 429, and one that fails in any other way (another
  status, or no answer at all) gives 500. Once the completion output has passed
  parsing and the check of the sections, the response is 200 whatever the catalog
  provider answers: its failures, a 401 or a 429 included, are swallowed by the
  enrichment step.
\<close>

theorem completion_failure_status:
  assumes "q_mood req = QStr m" "m \<noteq> []"
    and "parse_ingredients rt (q_ingredients req) = Inr ings"
    and "user_prompt m ings = Inr u"
    and "cc = CompletionCall (system_prompt (long_mode (q_longMode req))) u
                 (token_budget (long_mode (q_longMode req)))"
  shows
    "(\<forall>msg. w [] cc = Rejected (Some 401) msg \<longrightarrow>
        status (fst (experience_handler rt w req)) = 401)
     \<and> (\<forall>msg. w [] cc = Rejected (Some 429) msg \<longrightarrow>
        status (fst (experience_handler rt w req)) = 429)
     \<and> (\<forall>st msg. w [] cc = Rejected st msg \<and> st \<noteq> Some 401 \<and> st \<noteq> Some 429 \<longrightarrow>
        status (fst (experience_handler rt w req)) = 500)
     \<and> (\<forall>d c e. w [] cc = Resolved d \<and> groq_content d = Some c \<and> truthy (Some c) \<and>
          parseContent rt c = Inr e \<and> check_sections e requiredSections = Inr () \<longrightarrow>
        status (fst (experience_handler rt w req)) = 200)"
proof -
  let ?lm = "long_mode (q_longMode req)"
  let ?r = "fst (experience_handler rt w req)"
  have rej: "?r = experience_error (Thrown st msg)" if "w [] cc = Rejected st msg" for st msg
  proof -
    have "generateContent w [] m ings ?lm = (Inl (Thrown st msg), [cc])"
      using generateContent_rejected [of m ings u w "[]" ?lm st msg] assms(4,5) that by simp
    then have "assemble rt w m ings ?lm = (Inl (Thrown st msg), [cc])"
      by (simp add: assemble_def)
    then show ?thesis
      using experience_after_validation [OF assms(1-3), of w] by simp
  qed
  have c1: "\<forall>msg. w [] cc = Rejected (Some 401) msg \<longrightarrow> status ?r = 401"
    using rej by (simp add: experience_error_def)
  have c2: "\<forall>msg. w [] cc = Rejected (Some 429) msg \<longrightarrow> status ?r = 429"
    using rej by (simp add: experience_error_def)
  have c3: "\<forall>st msg. w [] cc = Rejected st msg \<and> st \<noteq> Some 401 \<and> st \<noteq> Some 429 \<longrightarrow> status ?r = 500"
    using rej by (simp add: experience_error_def fetch_failed_def)
  have c4: "\<forall>d c e. w [] cc = Resolved d \<and> groq_content d = Some c \<and> truthy (Some c) \<and>
          parseContent rt c = Inr e \<and> check_sections e requiredSections = Inr () \<longrightarrow>
        status ?r = 200"
  proof (intro allI impI)
    fix d c e
    assume a: "w [] cc = Resolved d \<and> groq_content d = Some c \<and> truthy (Some c) \<and>
          parseContent rt c = Inr e \<and> check_sections e requiredSections = Inr ()"
    then show "status ?r = 200"
      using experience_validated [of req m rt ings u w d c e] assms by simp
  qed
  from c1 c2 c3 c4 show ?thesis by blast
qed

theorem completion_failure_status_witness:
  "status (fst (experience_handler sample_rt
      (providers (rejected 401) token_reply (always (search_reply [sample_match])))
      \<lparr>q_mood = QStr ''calm'', q_ingredients = Absent, q_longMode = Absent\<rparr>)) = 401
   \<and> status (fst (experience_handler sample_rt
      (providers (rejected 429) token_reply (always (search_reply [sample_match])))
      \<lparr>q_mood = QStr ''calm'', q_ingredients = Absent, q_longMode = Absent\<rparr>)) = 429
   \<and> status (fst (experience_handler sample_rt
      (providers (rejected 503) token_reply (always (search_reply [sample_match])))
      \<lparr>q_mood = QStr ''calm'', q_ingredients = Absent, q_longMode = Absent\<rparr>)) = 500
   \<and> status (fst (experience_handler sample_rt
      (providers (completion_reply sample_experience_text) (rejected 429) (always (rejected 401)))
      \<lparr>q_mood = QStr ''calm'', q_ingredients = Absent, q_longMode = Absent\<rparr>)) = 200"
proof -
  let ?req = "\<lparr>q_mood = QStr ''calm'', q_ingredients = Absent, q_longMode = Absent\<rparr>"
  let ?u = "''Generate a vibe card for mood: '' @ [CHR 0x22] @ ''calm'' @ [CHR 0x22]"
  let ?cc = "CompletionCall (system_prompt (long_mode (q_longMode ?req))) ?u
                 (token_budget (long_mode (q_longMode ?req)))"
  have pi: "parse_ingredients sample_rt (q_ingredients ?req) = Inr []"
    by (simp add: parse_ingredients_def)
  have up: "user_prompt ''calm'' [] = Inr ?u"
    by (simp add: user_prompt_def)
  have tr: "truthy (Some (JStr sample_experience_text))"
    by (simp add: sample_experience_text_def)
  have rj: "\<And>n tk sr. providers (rejected n) tk sr [] ?cc
       = Rejected (Some n) (''Request failed with status code '' @ show_nat n)"
    by (simp add: providers_def rejected_def)
  have a: "status (fst (experience_handler sample_rt
      (providers (rejected 401) token_reply (always (search_reply [sample_match]))) ?req)) = 401"
    using completion_failure_status [of ?req "''calm''" sample_rt "[]" ?u ?cc
        "providers (rejected 401) token_reply (always (search_reply [sample_match]))"]
      pi up rj [of 401] by simp
  have b: "status (fst (experience_handler sample_rt
      (providers (rejected 429) token_reply (always (search_reply [sample_match]))) ?req)) = 429"
    using completion_failure_status [of ?req "''calm''" sample_rt "[]" ?u ?cc
        "providers (rejected 429) token_reply (always (search_reply [sample_match]))"]
      pi up rj [of 429] by simp
  have c: "status (fst (experience_handler sample_rt
      (providers (rejected 503) token_reply (always (search_reply [sample_match]))) ?req)) = 500"
    using completion_failure_status [of ?req "''calm''" sample_rt "[]" ?u ?cc
        "providers (rejected 503) token_reply (always (search_reply [sample_match]))"]
      pi up rj [of 503] by simp
  have d: "status (fst (experience_handler sample_rt
      (providers (completion_reply sample_experience_text) (rejected 429) (always (rejected 401))) ?req)) = 200"
    using completion_failure_status [of ?req "''calm''" sample_rt "[]" ?u ?cc
        "providers (completion_reply sample_experience_text) (rejected 429) (always (rejected 401))"]
      pi up tr sample_world_completion [of sample_experience_text]
      groq_content_completion_data [of sample_experience_text] sample_experience_valid
    by (simp del: truthy.simps)
  from a b c d show ?thesis by blast
qed

text \<open>
  The catalog's token endpoint rejects the credentials with 401 during the request,
  and the response is 200 with the generated experience.
\<close>

theorem catalog_401_counterexample:
  "providers (completion_reply sample_experience_text) (rejected 401) (always (rejected 401))
      [CompletionCall (system_prompt False)
         (''Generate a vibe card for mood: '' @ [CHR 0x22] @ ''calm'' @ [CHR 0x22]) 2000]
      TokenCall
     = Rejected (Some 401) (''Request failed with status code '' @ show_nat 401)
   \<and> experience_handler sample_rt
      (providers (completion_reply sample_experience_text) (rejected 401) (always (rejected 401)))
      \<lparr>q_mood = QStr ''calm'', q_ingredients = Absent, q_longMode = Absent\<rparr>
     = (\<lparr>status = 200, body = sample_experience\<rparr>,
        [CompletionCall (system_prompt False)
           (''Generate a vibe card for mood: '' @ [CHR 0x22] @ ''calm'' @ [CHR 0x22]) 2000,
         TokenCall])"
proof -
  let ?w = "providers (completion_reply sample_experience_text) (rejected 401) (always (rejected 401))"
  let ?cc = "CompletionCall (system_prompt False)
         (''Generate a vibe card for mood: '' @ [CHR 0x22] @ ''calm'' @ [CHR 0x22]) 2000"
  have 1: "?w [?cc] TokenCall = Rejected (Some 401) (''Request failed with status code '' @ show_nat 401)"
    by (simp add: providers_def rejected_def)
  have gc: "generateContent ?w [] ''calm'' [] False = (Inr (JStr sample_experience_text), [?cc])"
    by (simp add: generateContent_def user_prompt_def axios_def providers_def completion_reply_def
        groq_content_completion_data sample_experience_text_def token_budget_def)
  have en: "enrichPlaylist ?w [?cc] ''calm'' sample_experience = (sample_experience, [?cc, TokenCall])"
    using 1 by (simp add: enrichPlaylist_def getSpotifyToken_def axios_def)
  have "assemble sample_rt ?w ''calm'' [] False = (Inr sample_experience, [?cc, TokenCall])"
    using sample_experience_valid en by (simp add: assemble_def gc)
  then have 2: "experience_handler sample_rt ?w
      \<lparr>q_mood = QStr ''calm'', q_ingredients = Absent, q_longMode = Absent\<rparr>
     = (\<lparr>status = 200, body = sample_experience\<rparr>, [?cc, TokenCall])"
    by (simp add: experience_handler_def valid_mood_def parse_ingredients_def long_mode_def)
  from 1 2 show ?thesis by blast
qed

section \<open>The fallback search of /api/playlist\<close>

lemma search_loop_step_hit:
  assumes "to_string token = Inr t"
    and "w log (SearchCall (''Bearer '' @ t) q 5) = Resolved d"
    and "gt_zero rt (opt_member (result_items d) ''length'') = Inr True"
  shows "search_loop rt w token log (q # qs) =
     (opt_member (result_items d) ''0'', log @ [SearchCall (''Bearer '' @ t) q 5])"
  using assms by (simp add: axios_def)

lemma search_loop_step_miss:
  assumes "to_string token = Inr t"
    and "\<not> nonempty_result rt (w log (SearchCall (''Bearer '' @ t) q 5))"
  shows "search_loop rt w token log (q # qs) =
     search_loop rt w token (log @ [SearchCall (''Bearer '' @ t) q 5]) qs"
  using assms
  by (auto simp: axios_def nonempty_result_def split: reply.splits sum.splits)

lemma search_loop_all_miss:
  assumes "to_string token = Inr t"
    and "\<forall>i<length qs. \<not> nonempty_result rt
           (w (log @ take i (map (\<lambda>q. SearchCall (''Bearer '' @ t) q 5) qs))
              (SearchCall (''Bearer '' @ t) (qs ! i) 5))"
  shows "search_loop rt w token log qs =
     (None, log @ map (\<lambda>q. SearchCall (''Bearer '' @ t) q 5) qs)"
  using assms(2)
proof (induction qs arbitrary: log)
  case Nil
  then show ?case by simp
next
  case (Cons q qs)
  let ?mk = "\<lambda>q. SearchCall (''Bearer '' @ t) q 5"
  have m0: "\<not> nonempty_result rt (w log (?mk q))"
    using Cons.prems [rule_format, of 0] by simp
  have rest: "\<forall>i<length qs. \<not> nonempty_result rt
           (w ((log @ [?mk q]) @ take i (map ?mk qs)) (?mk (qs ! i)))"
  proof (intro allI impI)
    fix i assume "i < length qs"
    then show "\<not> nonempty_result rt (w ((log @ [?mk q]) @ take i (map ?mk qs)) (?mk (qs ! i)))"
      using Cons.prems [rule_format, of "Suc i"] by simp
  qed
  show ?case
    using search_loop_step_miss [of token t rt w log q qs] assms(1) m0 Cons.IH [OF rest] by simp
qed

lemma search_loop_first_hit:
  assumes "to_string token = Inr t"
    and "n < length qs"
    and "\<forall>i<n. \<not> nonempty_result rt
           (w (log @ take i (map (\<lambda>q. SearchCall (''Bearer '' @ t) q 5) qs))
              (SearchCall (''Bearer '' @ t) (qs ! i) 5))"
    and "w (log @ take n (map (\<lambda>q. SearchCall (''Bearer '' @ t) q 5) qs))
           (SearchCall (''Bearer '' @ t) (qs ! n) 5) = Resolved d"
    and "gt_zero rt (opt_member (result_items d) ''length'') = Inr True"
  shows "search_loop rt w token log qs =
     (opt_member (result_items d) ''0'',
      log @ take (Suc n) (map (\<lambda>q. SearchCall (''Bearer '' @ t) q 5) qs))"
  using assms(2-4)
proof (induction qs arbitrary: log n)
  case Nil
  then show ?case by simp
next
  case (Cons q qs)
  let ?mk = "\<lambda>q. SearchCall (''Bearer '' @ t) q 5"
  show ?case
  proof (cases n)
    case 0
    then have "w log (?mk q) = Resolved d" using Cons.prems(3) by simp
    then show ?thesis
      using search_loop_step_hit [of token t w log q d rt qs] assms(1,5) 0 by simp
  next
    case (Suc n')
    have m0: "\<not> nonempty_result rt (w log (?mk q))"
      using Cons.prems(2) [rule_format, of 0] Suc by simp
    have len: "n' < length qs" using Cons.prems(1) Suc by simp
    have rest: "\<forall>i<n'. \<not> nonempty_result rt
           (w ((log @ [?mk q]) @ take i (map ?mk qs)) (?mk (qs ! i)))"
    proof (intro allI impI)
      fix i assume "i < n'"
      then show "\<not> nonempty_result rt (w ((log @ [?mk q]) @ take i (map ?mk qs)) (?mk (qs ! i)))"
        using Cons.prems(2) [rule_format, of "Suc i"] Suc by simp
    qed
    have hit: "w ((log @ [?mk q]) @ take n' (map ?mk qs)) (?mk (qs ! n')) = Resolved d"
      using Cons.prems(3) Suc by simp
    show ?thesis
      using search_loop_step_miss [of token t rt w log q qs] assms(1) m0
        Cons.IH [OF len rest hit] Suc
      by simp
  qed
qed

lemma playlist_handler_searching:
  assumes "q_mood req = QStr m" "m \<noteq> []"
    and "w [] TokenCall = Resolved td" "get_prop td ''access_token'' = Some tok"
    and "truthy (Some tok)"
  shows "playlist_handler rt w req =
     (case search_loop rt w tok [TokenCall] (searchQueries (formattedMood m)) of
        (None, log') \<Rightarrow> (no_playlists, log')
      | (Some playlist, log') \<Rightarrow>
          (if truthy (Some playlist)
           then (\<lparr>status = 200, body = JObj [(''playlist'', playlistData playlist)]\<rparr>, log')
           else (no_playlists, log')))"
  using getSpotifyToken_ok [of w "[]" td tok] assms
  by (simp add: playlist_handler_def)

lemma formattedMood_samples:
  "formattedMood ''Sad!'' = ''sad''"
  "formattedMood ''calm'' = ''calm''"
  by code_simp+

lemma nonempty_result_samples:
  "\<not> nonempty_result rt (rejected n)"
  "\<not> nonempty_result rt (search_reply [])"
  "gt_zero rt (opt_member (result_items (search_data [x])) ''length'') = Inr True"
  "opt_member (result_items (search_data [x])) ''0'' = Some x"
  by (simp_all add: nonempty_result_def rejected_def search_reply_def search_data_def
      result_items_def opt_member_def show_nat_0 show_nat_1 get_prop_arr_0 del: get_prop.simps(1))
     (simp_all add: show_nat_0 show_nat_1)

lemma token_reply_ok:
  "get_prop token_data ''access_token'' = Some (JStr ''tok'')"
  "truthy (Some (JStr ''tok''))" "to_string (JStr ''tok'') = Inr ''tok''"
  by (simp_all add: token_data_def)

text \<open>
  Claim C6. Take a request to /api/playlist with a non-empty mood for which the token
  request succeeds, and let \<open>fm\<close> be the normalised mood. The search requests are
  made for \<open>fm playlist\<close>, \<open>fm vibe playlist\<close>, \<open>fm fm playlist\<close> and
  \<open>fm feel playlist\<close>, in this order, each with the answers to the earlier ones
  behind it. If the first \<open>n\<close> of them are rejected or come back without a non-empty
  item list and the next one comes back with a non-empty list, exactly these
  \<open>n + 1\<close> requests are made and the result is the first item of that list: the
  response is the 200 built from it (or the 404 when that item is falsy). If none of
  the four comes back with a non-empty list, all four are made and the response is
  the 404.
\<close>

theorem fallback_search_order:
  assumes "q_mood req = QStr m" "m \<noteq> []"
    and "w [] TokenCall = Resolved td" "get_prop td ''access_token'' = Some tok"
    and "truthy (Some tok)" "to_string tok = Inr t"
    and "fm = formattedMood m"
    and "qs = [fm @ '' playlist'', fm @ '' vibe playlist'',
               fm @ '' '' @ fm @ '' playlist'', fm @ '' feel playlist'']"
    and "cs = map (\<lambda>q. SearchCall (''Bearer '' @ t) q 5) qs"
  shows
    "(\<forall>n d. n < 4 \<and>
         (\<forall>i<n. \<not> nonempty_result rt (w (TokenCall # take i cs) (cs ! i))) \<and>
         w (TokenCall # take n cs) (cs ! n) = Resolved d \<and>
         gt_zero rt (opt_member (result_items d) ''length'') = Inr True \<longrightarrow>
       snd (playlist_handler rt w req) = TokenCall # take (Suc n) cs \<and>
       fst (playlist_handler rt w req) =
         (case opt_member (result_items d) ''0'' of
            None \<Rightarrow> no_playlists
          | Some playlist \<Rightarrow>
              (if truthy (Some playlist)
               then \<lparr>status = 200, body = JObj [(''playlist'', playlistData playlist)]\<rparr>
               else no_playlists)))
     \<and> ((\<forall>i<4. \<not> nonempty_result rt (w (TokenCall # take i cs) (cs ! i))) \<longrightarrow>
           playlist_handler rt w req = (no_playlists, TokenCall # cs))
     \<and> status no_playlists = 404"
proof -
  let ?mk = "\<lambda>q. SearchCall (''Bearer '' @ t) q 5"
  have sq: "searchQueries (formattedMood m) = qs"
    using assms(7,8) by (simp add: searchQueries_def)
  have len: "length qs = 4" using assms(8) by simp
  have nth: "cs ! i = ?mk (qs ! i)" if "i < 4" for i
    using that len assms(9) by simp
  have h: "playlist_handler rt w req =
     (case search_loop rt w tok [TokenCall] qs of
        (None, log') \<Rightarrow> (no_playlists, log')
      | (Some playlist, log') \<Rightarrow>
          (if truthy (Some playlist)
           then (\<lparr>status = 200, body = JObj [(''playlist'', playlistData playlist)]\<rparr>, log')
           else (no_playlists, log')))"
    using playlist_handler_searching [of req m w td tok rt] assms(1-5) sq by simp
  have c1: "snd (playlist_handler rt w req) = TokenCall # take (Suc n) cs \<and>
       fst (playlist_handler rt w req) =
         (case opt_member (result_items d) ''0'' of
            None \<Rightarrow> no_playlists
          | Some playlist \<Rightarrow>
              (if truthy (Some playlist)
               then \<lparr>status = 200, body = JObj [(''playlist'', playlistData playlist)]\<rparr>
               else no_playlists))"
    if n: "n < 4"
      and miss: "\<forall>i<n. \<not> nonempty_result rt (w (TokenCall # take i cs) (cs ! i))"
      and hit: "w (TokenCall # take n cs) (cs ! n) = Resolved d"
      and ne: "gt_zero rt (opt_member (result_items d) ''length'') = Inr True" for n d
  proof -
    have m': "\<forall>i<n. \<not> nonempty_result rt (w ([TokenCall] @ take i (map ?mk qs)) (?mk (qs ! i)))"
      using miss n nth assms(9) by simp
    have h': "w ([TokenCall] @ take n (map ?mk qs)) (?mk (qs ! n)) = Resolved d"
      using hit n nth assms(9) by simp
    have "search_loop rt w tok [TokenCall] qs =
        (opt_member (result_items d) ''0'', [TokenCall] @ take (Suc n) (map ?mk qs))"
      using search_loop_first_hit [of tok t n qs rt w "[TokenCall]" d] assms(6) n len m' h' ne
      by simp
    then show ?thesis using h assms(9) by (simp split: option.splits)
  qed
  have c2: "playlist_handler rt w req = (no_playlists, TokenCall # cs)"
    if miss: "\<forall>i<4. \<not> nonempty_result rt (w (TokenCall # take i cs) (cs ! i))"
  proof -
    have m': "\<forall>i<length qs. \<not> nonempty_result rt
        (w ([TokenCall] @ take i (map ?mk qs)) (?mk (qs ! i)))"
      using miss nth len assms(9) by simp
    have "search_loop rt w tok [TokenCall] qs = (None, [TokenCall] @ map ?mk qs)"
      using search_loop_all_miss [of tok t qs rt w "[TokenCall]"] assms(6) m' by simp
    then show ?thesis using h assms(9) by simp
  qed
  have c3: "status no_playlists = 404" by (simp add: no_playlists_def)
  from c1 c2 c3 show ?thesis by blast
qed

theorem fallback_search_order_witness:
  "playlist_handler sample_rt (providers unreachable token_reply flaky_catalog)
      \<lparr>q_mood = QStr ''Sad!'', q_ingredients = Absent, q_longMode = Absent\<rparr>
     = (\<lparr>status = 200, body = JObj [(''playlist'', playlistData sample_match)]\<rparr>,
        [TokenCall,
         SearchCall ''Bearer tok'' ''sad playlist'' 5,
         SearchCall ''Bearer tok'' ''sad vibe playlist'' 5,
         SearchCall ''Bearer tok'' ''sad sad playlist'' 5])
   \<and> playlist_handler sample_rt (providers unreachable token_reply (always (search_reply [])))
      \<lparr>q_mood = QStr ''Sad!'', q_ingredients = Absent, q_longMode = Absent\<rparr>
     = (no_playlists,
        [TokenCall,
         SearchCall ''Bearer tok'' ''sad playlist'' 5,
         SearchCall ''Bearer tok'' ''sad vibe playlist'' 5,
         SearchCall ''Bearer tok'' ''sad sad playlist'' 5,
         SearchCall ''Bearer tok'' ''sad feel playlist'' 5])"
proof -
  let ?req = "\<lparr>q_mood = QStr ''Sad!'', q_ingredients = Absent, q_longMode = Absent\<rparr>"
  let ?qs = "[''sad'' @ '' playlist'', ''sad'' @ '' vibe playlist'',
               ''sad'' @ '' '' @ ''sad'' @ '' playlist'', ''sad'' @ '' feel playlist'']"
  let ?cs = "map (\<lambda>q. SearchCall (''Bearer '' @ ''tok'') q 5) ?qs"
  let ?w1 = "providers unreachable token_reply flaky_catalog"
  let ?w2 = "providers unreachable token_reply (always (search_reply []))"
  have tk: "?w1 [] TokenCall = Resolved token_data" "?w2 [] TokenCall = Resolved token_data"
    by (simp_all add: providers_def token_reply_def)
  have miss1: "\<forall>i<2. \<not> nonempty_result sample_rt (?w1 (TokenCall # take i ?cs) (?cs ! i))"
  proof (intro allI impI)
    fix i :: nat assume "i < 2"
    then have "i = 0 \<or> i = 1" by auto
    then show "\<not> nonempty_result sample_rt (?w1 (TokenCall # take i ?cs) (?cs ! i))"
      by (auto simp: providers_def flaky_catalog_def nonempty_result_samples)
  qed
  have hit1: "?w1 (TokenCall # take 2 ?cs) (?cs ! 2) = Resolved (search_data [sample_match])"
    by (simp add: providers_def flaky_catalog_def search_reply_def numeral_2_eq_2)
  have miss2: "\<forall>i<4. \<not> nonempty_result sample_rt (?w2 (TokenCall # take i ?cs) (?cs ! i))"
  proof (intro allI impI)
    fix i :: nat assume "i < 4"
    then have "i = 0 \<or> i = 1 \<or> i = 2 \<or> i = 3" by auto
    then show "\<not> nonempty_result sample_rt (?w2 (TokenCall # take i ?cs) (?cs ! i))"
      by (auto simp: providers_def always_def nonempty_result_samples numeral_2_eq_2 numeral_3_eq_3)
  qed
  have p1: "q_mood ?req = QStr ''Sad!''" "''Sad!'' \<noteq> []" by simp_all
  have p7: "''sad'' = formattedMood ''Sad!''" by (simp add: formattedMood_samples)
  have p8: "?qs = ?qs" "?cs = ?cs" by (rule refl)+
  note T1 = fallback_search_order [of ?req "''Sad!''" ?w1 token_data "JStr ''tok''" "''tok''"
      "''sad''" ?qs ?cs sample_rt, OF p1 tk(1) token_reply_ok p7 p8]
  note T2 = fallback_search_order [of ?req "''Sad!''" ?w2 token_data "JStr ''tok''" "''tok''"
      "''sad''" ?qs ?cs sample_rt, OF p1 tk(2) token_reply_ok p7 p8]
  have n2: "(2::nat) < 4" by simp
  have ne: "gt_zero sample_rt (opt_member (result_items (search_data [sample_match])) ''length'') = Inr True"
    by (rule nonempty_result_samples(3))
  have "snd (playlist_handler sample_rt ?w1 ?req) = TokenCall # take (Suc 2) ?cs \<and>
       fst (playlist_handler sample_rt ?w1 ?req) =
         (case opt_member (result_items (search_data [sample_match])) ''0'' of
            None \<Rightarrow> no_playlists
          | Some playlist \<Rightarrow>
              (if truthy (Some playlist)
               then \<lparr>status = 200, body = JObj [(''playlist'', playlistData playlist)]\<rparr>
               else no_playlists))"
    using T1 n2 miss1 hit1 ne by blast
  then have a: "playlist_handler sample_rt ?w1 ?req =
      (\<lparr>status = 200, body = JObj [(''playlist'', playlistData sample_match)]\<rparr>,
       TokenCall # take (Suc 2) ?cs)"
    by (simp add: nonempty_result_samples(4) prod_eq_iff sample_match_def)
  have b: "playlist_handler sample_rt ?w2 ?req = (no_playlists, TokenCall # ?cs)"
    using T2 miss2 by blast
  from a b show ?thesis by (simp add: numeral_2_eq_2)
qed

section \<open>The response of /api/playlist\<close>

text \<open>
  Claim C4, at a request for the mood \<open>calm\<close> whose first query finds a playlist.
  The response is 200, but its body nests the catalog's fields under \<open>playlist\<close>
  (\<open>id\<close>, \<open>name\<close>, \<open>description\<close>, \<open>external_urls\<close>, \<open>images\<close>, \<open>owner\<close>)
  instead of being the flat object with \<open>name\<close>, \<open>description\<close>, \<open>url\<close> and
  \<open>moodDescription\<close>, and the completion provider is never called: the handler
  returns before the statements that would build that body.
\<close>

theorem playlist_route_nested_body:
  "playlist_handler sample_rt
      (providers (completion_reply ''calm and quiet'') token_reply (always (search_reply [sample_match])))
      \<lparr>q_mood = QStr ''calm'', q_ingredients = Absent, q_longMode = Absent\<rparr>
     = (\<lparr>status = 200,
         body = JObj [(''playlist'',
           JObj [(''id'', JStr ''p1''), (''name'', JStr ''Deep Calm''), (''description'', JNull),
                 (''external_urls'', JObj [(''spotify'', JStr ''https://open.example/p1'')]),
                 (''images'', JArr [JObj [(''url'', JStr ''https://img.example/1'')]]),
                 (''owner'', JObj [(''id'', JStr ''u1'')])])]\<rparr>,
        [TokenCall, SearchCall ''Bearer tok'' ''calm playlist'' 5])"
proof -
  let ?w = "providers (completion_reply ''calm and quiet'') token_reply (always (search_reply [sample_match]))"
  let ?req = "\<lparr>q_mood = QStr ''calm'', q_ingredients = Absent, q_longMode = Absent\<rparr>"
  have tk: "?w [] TokenCall = Resolved token_data"
    by (simp add: providers_def token_reply_def)
  have s: "?w [TokenCall] (SearchCall (''Bearer '' @ ''tok'') ''calm playlist'' 5)
      = Resolved (search_data [sample_match])"
    by (simp add: providers_def always_def search_reply_def)
  have l: "search_loop sample_rt ?w (JStr ''tok'') [TokenCall] (searchQueries ''calm'') =
      (Some sample_match, [TokenCall, SearchCall ''Bearer tok'' ''calm playlist'' 5])"
    using search_loop_step_hit [of "JStr ''tok''" "''tok''" ?w "[TokenCall]" "''calm playlist''"
        "search_data [sample_match]" sample_rt] s nonempty_result_samples(3,4)
    by (simp add: searchQueries_def)
  have d: "playlistData sample_match =
      JObj [(''id'', JStr ''p1''), (''name'', JStr ''Deep Calm''), (''description'', JNull),
            (''external_urls'', JObj [(''spotify'', JStr ''https://open.example/p1'')]),
            (''images'', JArr [JObj [(''url'', JStr ''https://img.example/1'')]]),
            (''owner'', JObj [(''id'', JStr ''u1'')])]"
    by (simp add: playlistData_def sample_match_def put_def)
  show ?thesis
    using playlist_handler_searching [of ?req "''calm''" ?w token_data "JStr ''tok''" sample_rt]
      tk token_reply_ok l d
    by (simp add: formattedMood_samples sample_match_def)
qed

end
